theory Spec2Isabelle
  imports Main "HOL-Library.Word"
begin

section \<open>Memory: in-memory readers, backing arrays, streams\<close>

text \<open>
  The request-body code of \<^verbatim>\<open>httpclient/body_types.go\<close> works on pointers to
  \<^verbatim>\<open>bytes.Buffer\<close>, \<^verbatim>\<open>bytes.Reader\<close> and \<^verbatim>\<open>strings.Reader\<close> values, copies such values
  (\<^verbatim>\<open>snapshot := *input\<close>) and hands out readers over byte slices that share their backing
  array with a buffer (\<^verbatim>\<open>raw := buffer.Bytes()\<close>). The heap therefore has two levels: the
  struct values that pointers refer to, and the backing arrays that \<^verbatim>\<open>[]byte\<close> slices
  window. A Go string is immutable and is held by value.
\<close>

type_synonym byte = "8 word"
type_synonym addr = nat

text \<open>A slice \<^verbatim>\<open>[]byte\<close>: backing array, first index, length.\<close>

datatype slice = Slice addr nat nat

text \<open>
  The three in-memory types with the fields that decide \<^verbatim>\<open>Len\<close> and \<^verbatim>\<open>Read\<close>:
  \<^verbatim>\<open>bytes.Buffer{buf, off}\<close>, \<^verbatim>\<open>bytes.Reader{s, i}\<close>, \<^verbatim>\<open>strings.Reader{s, i}\<close>.
  The read offsets are never negative.
\<close>

datatype inmem =
    BytesBuffer slice nat
  | BytesReader slice nat
  | StringsReader "byte list" nat

record heap =
  objs :: "addr \<Rightarrow> inmem"
  arrays :: "addr \<Rightarrow> byte list"
  next_addr :: addr

fun slice_bytes :: "(addr \<Rightarrow> byte list) \<Rightarrow> slice \<Rightarrow> byte list" where
  "slice_bytes A (Slice a s n) = take n (drop s (A a))"

text \<open>
  \<^verbatim>\<open>Len()\<close> of the standard library: \<^verbatim>\<open>len(b.buf) - b.off\<close> for a buffer, and for the two
  readers \<^verbatim>\<open>0\<close> when \<^verbatim>\<open>i >= len(s)\<close>, else \<^verbatim>\<open>len(s) - i\<close>.
\<close>

fun Len :: "inmem \<Rightarrow> int" where
  "Len (BytesBuffer (Slice a s n) off) = int n - int off"
| "Len (BytesReader (Slice a s n) i) = (if i \<ge> n then 0 else int n - int i)"
| "Len (StringsReader s i) = (if i \<ge> length s then 0 else int (length s) - int i)"

text \<open>The bytes a reader still has to deliver.\<close>

fun unread :: "(addr \<Rightarrow> byte list) \<Rightarrow> inmem \<Rightarrow> byte list" where
  "unread A (BytesBuffer sl off) = drop off (slice_bytes A sl)"
| "unread A (BytesReader sl i) = drop i (slice_bytes A sl)"
| "unread A (StringsReader s i) = drop i s"

text \<open>
  The state of a reader once it has been read to the end: a drained buffer resets itself
  (\<^verbatim>\<open>buf = buf[:0]\<close>, \<^verbatim>\<open>off = 0\<close>), a reader stands at the end of its data.
\<close>

fun drained :: "inmem \<Rightarrow> inmem" where
  "drained (BytesBuffer (Slice a s n) off) = BytesBuffer (Slice a s 0) 0"
| "drained (BytesReader (Slice a s n) i) = BytesReader (Slice a s n) (max i n)"
| "drained (StringsReader s i) = StringsReader s (max i (length s))"

text \<open>
  The invariants Go maintains for these values: a slice lies inside its backing array and a
  buffer's read offset is at most its length.
\<close>

fun wf_inmem :: "(addr \<Rightarrow> byte list) \<Rightarrow> inmem \<Rightarrow> bool" where
  "wf_inmem A (BytesBuffer (Slice a s n) off) = (s + n \<le> length (A a) \<and> off \<le> n)"
| "wf_inmem A (BytesReader (Slice a s n) i) = (s + n \<le> length (A a))"
| "wf_inmem A (StringsReader s i) = True"

text \<open>
  An \<^verbatim>\<open>io.ReadCloser\<close> is \<^verbatim>\<open>http.NoBody\<close> or \<^verbatim>\<open>io.NopCloser\<close> around a pointer to a
  reader; the nil interface is \<open>None\<close> of \<open>stream option\<close>.
\<close>

datatype stream = NoBody | NopCloser addr

definition alloc_obj :: "inmem \<Rightarrow> heap \<Rightarrow> addr \<times> heap" where
  "alloc_obj v h =
     (next_addr h, h\<lparr>objs := (objs h)(next_addr h := v), next_addr := Suc (next_addr h)\<rparr>)"

definition alloc_array :: "byte list \<Rightarrow> heap \<Rightarrow> slice \<times> heap" where
  "alloc_array bs h =
     (Slice (next_addr h) 0 (length bs),
      h\<lparr>arrays := (arrays h)(next_addr h := bs), next_addr := Suc (next_addr h)\<rparr>)"

text \<open>\<^verbatim>\<open>io.ReadAll\<close>: the unread bytes, and the reader left at its end.\<close>

fun io_ReadAll :: "stream \<Rightarrow> heap \<Rightarrow> byte list \<times> heap" where
  "io_ReadAll NoBody h = ([], h)"
| "io_ReadAll (NopCloser a) h =
     (unread (arrays h) (objs h a), h\<lparr>objs := (objs h)(a := drained (objs h a))\<rparr>)"

section \<open>Errors, panics, calls to collaborators\<close>

text \<open>
  A Go \<^verbatim>\<open>error\<close> that may be nil is an \<open>error option\<close>. \<open>UnexpectedType\<close> is the
  \<^verbatim>\<open>fmt.Errorf("...: unexpected type %T", v)\<close> of the stream constructors (constructor name,
  type name), \<open>RequestInputNotRequestBody\<close> the error of the middleware
  (\<^verbatim>\<open>"requestEncoder is nil but requestInput is not RequestBody"\<close>), and \<open>External\<close> an
  error returned by a collaborator: encoder, decoder, transport or a caller's factory.
\<close>

datatype error =
    UnexpectedType string string
  | RequestInputNotRequestBody
  | External nat

text \<open>A call returns a value or panics (calling a nil function value, a nil interface).\<close>

datatype 'a exec = Returns 'a | Panics

text \<open>
  The trace records, in order, every call the code under study makes to a collaborator and
  every run of the cleanup function in \<^verbatim>\<open>RoundTrip\<close>. Collaborators work on the heap and
  cannot touch the trace.
\<close>

datatype event =
    EvPoolGet addr
  | EvPoolPut addr
  | EvMarshal
  | EvEncode addr
  | EvTransport
  | EvCleanup
  | EvDecode

record world =
  hp :: heap
  trace :: "event list"

definition log :: "event \<Rightarrow> world \<Rightarrow> world" where
  "log e w = w\<lparr>trace := trace w @ [e]\<rparr>"

section \<open>\<^verbatim>\<open>http.Request\<close> and \<^verbatim>\<open>requestBodyFunc\<close>\<close>

type_synonym getBody = "heap \<Rightarrow> (stream option \<times> error option) \<times> heap"

record request =
  ContentLength :: int
  Body :: "stream option"
  GetBody :: "getBody option"

text \<open>
  \<^verbatim>\<open>type requestBodyFunc func() (length int64, body io.ReadCloser, getBody func() (io.ReadCloser, error), err error)\<close>.
  Lengths of data held in memory fit \<^verbatim>\<open>int64\<close>; the length is an \<open>int\<close>.
\<close>

type_synonym requestBodyFunc =
  "world \<Rightarrow> (int \<times> stream option \<times> getBody option \<times> error option) exec \<times> world"

text \<open>
  \<^verbatim>\<open>func (f requestBodyFunc) setRequestBody(req *http.Request) error\<close>. The request is
  updated through its pointer; the model returns the request after the call.
\<close>

definition requestBodyFunc_setRequestBody ::
  "requestBodyFunc \<Rightarrow> request \<Rightarrow> world \<Rightarrow> error option exec \<times> request \<times> world" where
  "requestBodyFunc_setRequestBody f req w =
     (case f w of
        (Panics, w1) \<Rightarrow> (Panics, req, w1)
      | (Returns (contentLength, body, getBody, err), w1) \<Rightarrow>
          if err \<noteq> None then (Returns err, req, w1)
          else if body = None
          then (Returns err, req\<lparr>ContentLength := 0, Body := Some NoBody, GetBody := None\<rparr>, w1)
          else (Returns err,
                req\<lparr>ContentLength := contentLength, Body := body, GetBody := getBody\<rparr>, w1))"

text \<open>
  \<^verbatim>\<open>RequestBody\<close> has two implementations in the package: \<^verbatim>\<open>requestBodyFunc\<close> and the marker
  struct \<^verbatim>\<open>noRetriesRequestBody\<close> that embeds one.
\<close>

datatype request_body =
    RequestBodyFunc requestBodyFunc
  | NoRetriesRequestBody requestBodyFunc

fun setRequestBody :: "request_body \<Rightarrow> request \<Rightarrow> world \<Rightarrow> error option exec \<times> request \<times> world" where
  "setRequestBody (RequestBodyFunc f) req w = requestBodyFunc_setRequestBody f req w"
| "setRequestBody (NoRetriesRequestBody f) req w = requestBodyFunc_setRequestBody f req w"

definition RequestBodyEmpty :: request_body where
  "RequestBodyEmpty = RequestBodyFunc (\<lambda>w. (Returns (0, Some NoBody, None, None), w))"

section \<open>The constructors of \<^verbatim>\<open>body_types.go\<close>\<close>

text \<open>A caller's function works on the heap; calling it from the code keeps the trace.\<close>

definition call :: "(heap \<Rightarrow> 'r \<times> heap) \<Rightarrow> world \<Rightarrow> 'r \<times> world" where
  "call f w = (case f (hp w) of (r, h) \<Rightarrow> (r, w\<lparr>hp := h\<rparr>))"

subsection \<open>\<^verbatim>\<open>RequestBodyInMemory\<close>\<close>

text \<open>
  \<^verbatim>\<open>contentLengthInMemory(input *T) int64\<close>: \<^verbatim>\<open>0\<close> for the nil pointer, else
  \<^verbatim>\<open>int64(input.Len())\<close>, read through the pointer when it is called.
\<close>

definition contentLengthInMemory :: "addr option \<Rightarrow> heap \<Rightarrow> int" where
  "contentLengthInMemory input h = (case input of None \<Rightarrow> 0 | Some p \<Rightarrow> Len (objs h p))"

text \<open>
  The closure \<^verbatim>\<open>getBody\<close> of \<^verbatim>\<open>RequestBodyInMemory\<close>: \<^verbatim>\<open>r := snapshot\<close> is a new
  variable on every call, and the stream is \<^verbatim>\<open>io.NopCloser(&r)\<close>.
\<close>

definition getBody_snapshot :: "inmem \<Rightarrow> getBody" where
  "getBody_snapshot snapshot =
     (\<lambda>h. case alloc_obj snapshot h of (r, h1) \<Rightarrow> ((Some (NopCloser r), None), h1))"

text \<open>
  \<^verbatim>\<open>RequestBodyInMemory(input *T) RequestBody\<close> returns a closure over the pointer. The nil
  check, the length and the copy \<^verbatim>\<open>snapshot := *input\<close> are inside the closure: they are
  evaluated when \<^verbatim>\<open>setRequestBody\<close> runs it.
\<close>

definition RequestBodyInMemory :: "addr option \<Rightarrow> request_body" where
  "RequestBodyInMemory input = RequestBodyFunc (\<lambda>w.
     case input of
       None \<Rightarrow> (Returns (0, None, None, None), w)
     | Some p \<Rightarrow>
         (let contentLen = contentLengthInMemory input (hp w);
              snapshot = objs (hp w) p;
              getBody = getBody_snapshot snapshot
          in case call getBody w of
               ((firstBody, _), w1) \<Rightarrow> (Returns (contentLen, firstBody, Some getBody, None), w1)))"

subsection \<open>\<^verbatim>\<open>RequestBodyStreamOnce\<close> and \<^verbatim>\<open>RequestBodyStreamWithReplay\<close>\<close>

text \<open>
  The three function types of the constraint \<^verbatim>\<open>requestBodyStreamInput\<close>. A function value
  may be nil (\<open>None\<close>); calling it then panics. A caller's function that is not nil is
  taken to return.
\<close>

type_synonym func0 = "heap \<Rightarrow> stream option \<times> heap"
type_synonym func1 = "heap \<Rightarrow> (stream option \<times> error option) \<times> heap"
type_synonym func2 = "heap \<Rightarrow> (stream option \<times> int \<times> error option) \<times> heap"

text \<open>
  What the type switch \<^verbatim>\<open>switch v := any(input).(type)\<close> can see: the nil interface, a
  value of one of the three function types, or a value of another type (with its name as
  \<^verbatim>\<open>%T\<close> prints it). The type parameter \<^verbatim>\<open>T requestBodyStreamInput\<close> admits the three
  function types only, so \<^verbatim>\<open>any(input)\<close> always carries one of them: in a program that
  compiles, \<open>NilInterface\<close> and \<open>OtherType\<close> do not occur.
\<close>

datatype stream_input =
    NilInterface
  | Func0 "func0 option"
  | Func1 "func1 option"
  | Func2 "func2 option"
  | OtherType string

fun streamOnce_func :: "stream_input \<Rightarrow> requestBodyFunc" where
  "streamOnce_func (OtherType t) w =
     (Returns (0, None, None, Some (UnexpectedType ''httpclient.RequestBodyStreamOnce'' t)), w)"
| "streamOnce_func NilInterface w = (Returns (0, None, None, None), w)"
| "streamOnce_func (Func0 None) w = (Panics, w)"
| "streamOnce_func (Func0 (Some v)) w =
     (case call v w of (body, w1) \<Rightarrow> (Returns (- 1, body, None, None), w1))"
| "streamOnce_func (Func1 None) w = (Panics, w)"
| "streamOnce_func (Func1 (Some v)) w =
     (case call v w of ((body, err), w1) \<Rightarrow> (Returns (- 1, body, None, err), w1))"
| "streamOnce_func (Func2 None) w = (Panics, w)"
| "streamOnce_func (Func2 (Some v)) w =
     (case call v w of ((body, contentLen, err), w1) \<Rightarrow> (Returns (contentLen, body, None, err), w1))"

definition RequestBodyStreamOnce :: "stream_input \<Rightarrow> request_body" where
  "RequestBodyStreamOnce input = NoRetriesRequestBody (streamOnce_func input)"

fun streamWithReplay_func :: "stream_input \<Rightarrow> requestBodyFunc" where
  "streamWithReplay_func (OtherType t) w =
     (Returns (0, None, None, Some (UnexpectedType ''httpclient.RequestBodyStreamWithReplay'' t)), w)"
| "streamWithReplay_func NilInterface w = (Returns (0, None, None, None), w)"
| "streamWithReplay_func (Func0 None) w = (Panics, w)"
| "streamWithReplay_func (Func0 (Some v)) w =
     (case call v w of
        (body, w1) \<Rightarrow>
          (Returns (- 1, body, Some (\<lambda>h. case v h of (s, h1) \<Rightarrow> ((s, None), h1)), None), w1))"
| "streamWithReplay_func (Func1 None) w = (Panics, w)"
| "streamWithReplay_func (Func1 (Some v)) w =
     (case call v w of ((body, err), w1) \<Rightarrow> (Returns (- 1, body, Some v, err), w1))"
| "streamWithReplay_func (Func2 None) w = (Panics, w)"
| "streamWithReplay_func (Func2 (Some v)) w =
     (case call v w of
        ((body, contentLen, err), w1) \<Rightarrow>
          (Returns (contentLen, body,
                    Some (\<lambda>h. case v h of ((b, _, e), h1) \<Rightarrow> ((b, e), h1)), err), w1))"

definition RequestBodyStreamWithReplay :: "stream_input \<Rightarrow> request_body" where
  "RequestBodyStreamWithReplay input = RequestBodyFunc (streamWithReplay_func input)"

subsection \<open>\<^verbatim>\<open>RequestBodyEncoderObject\<close> and \<^verbatim>\<open>RequestBodyEncoderObjectBuffer\<close>\<close>

text \<open>
  A value of type \<^verbatim>\<open>any\<close> handed to the middleware: the nil interface, a \<^verbatim>\<open>RequestBody\<close>, or
  an object of some other type.
\<close>

datatype 'v go_any = NilAny | RequestBodyAny request_body | ObjectAny 'v

text \<open>
  \<^verbatim>\<open>codecs.Encoder\<close> is declared outside the files at hand; it is a parameter.
  \<^verbatim>\<open>Marshal(v) ([]byte, error)\<close> returns the bytes or an error; \<^verbatim>\<open>Encode(w, v) error\<close>
  writes bytes to the writer and returns an error or nil (bytes may have been written before
  a failure). The two need not produce the same bytes.
\<close>

record 'v encoder =
  Marshal :: "'v go_any \<Rightarrow> error + byte list"
  Encode :: "'v go_any \<Rightarrow> byte list \<times> error option"

text \<open>
  \<^verbatim>\<open>(*bytes.Buffer).Write\<close> appends to the buffer's contents: it reslices \<^verbatim>\<open>b.buf\<close> and
  copies the new bytes into the array right after the old contents, over what was there,
  and keeps the bytes that lie behind them. Growing beyond the array's capacity (sliding,
  reallocation) is not modelled: the array is extended. \<^verbatim>\<open>Bytes()\<close> is the slice
  \<^verbatim>\<open>b.buf[b.off:]\<close> of the unread part, sharing the buffer's array. A \<^verbatim>\<open>*bytes.Buffer\<close>
  points to a buffer; for another kind of value the heap is left alone and the slice is
  empty.
\<close>

definition buffer_Write :: "addr \<Rightarrow> byte list \<Rightarrow> heap \<Rightarrow> heap" where
  "buffer_Write p data h =
     (case objs h p of
        BytesBuffer (Slice a s n) off \<Rightarrow>
          h\<lparr>objs := (objs h)(p := BytesBuffer (Slice a s (n + length data)) off),
            arrays := (arrays h)(a := take (s + n) (arrays h a) @ data
                                       @ drop (s + n + length data) (arrays h a))\<rparr>
      | _ \<Rightarrow> h)"

definition buffer_Bytes :: "addr \<Rightarrow> heap \<Rightarrow> slice" where
  "buffer_Bytes p h =
     (case objs h p of
        BytesBuffer (Slice a s n) off \<Rightarrow> Slice a (s + off) (n - off)
      | _ \<Rightarrow> Slice 0 0 0)"

fun slice_len :: "slice \<Rightarrow> nat" where
  "slice_len (Slice a s n) = n"

text \<open>
  The closure \<^verbatim>\<open>getBody\<close> of both encoder constructors:
  \<^verbatim>\<open>return io.NopCloser(bytes.NewReader(raw)), nil\<close>. It refers to \<^verbatim>\<open>raw\<close> only.
\<close>

definition getBody_raw :: "slice \<Rightarrow> getBody" where
  "getBody_raw raw =
     (\<lambda>h. case alloc_obj (BytesReader raw 0) h of (r, h1) \<Rightarrow> ((Some (NopCloser r), None), h1))"

text \<open>
  \<^verbatim>\<open>RequestBodyEncoderObject(input any, encoder codecs.Encoder)\<close>; the encoder is not nil.
  The slice that \<^verbatim>\<open>Marshal\<close> returns is a fresh array.
\<close>

definition RequestBodyEncoderObject :: "'v go_any \<Rightarrow> 'v encoder \<Rightarrow> request_body" where
  "RequestBodyEncoderObject input encoder = RequestBodyFunc (\<lambda>w.
     case Marshal encoder input of
       Inl err \<Rightarrow> (Returns (0, None, None, Some err), log EvMarshal w)
     | Inr bs \<Rightarrow>
         (case call (alloc_array bs) (log EvMarshal w) of
            (raw, w1) \<Rightarrow>
              (let getBody = getBody_raw raw
               in case call getBody w1 of
                    ((body, _), w2) \<Rightarrow>
                      (Returns (int (slice_len raw), body, Some getBody, None), w2))))"

text \<open>
  \<^verbatim>\<open>RequestBodyEncoderObjectBuffer(input any, encoder codecs.Encoder, buffer *bytes.Buffer)\<close>;
  encoder and buffer are not nil.
\<close>

definition RequestBodyEncoderObjectBuffer ::
  "'v go_any \<Rightarrow> 'v encoder \<Rightarrow> addr \<Rightarrow> request_body" where
  "RequestBodyEncoderObjectBuffer input encoder buffer = RequestBodyFunc (\<lambda>w.
     case Encode encoder input of
       (written, err) \<Rightarrow>
         (let w1 = (log (EvEncode buffer) w)\<lparr>hp := buffer_Write buffer written (hp w)\<rparr>
          in if err \<noteq> None then (Returns (0, None, None, err), w1)
             else (let raw = buffer_Bytes buffer (hp w1);
                       getBody = getBody_raw raw
                   in case call getBody w1 of
                        ((body, _), w2) \<Rightarrow>
                          (Returns (int (slice_len raw), body, Some getBody, None), w2))))"

section \<open>The middleware of \<^verbatim>\<open>body_handler.go\<close>\<close>

text \<open>
  \<^verbatim>\<open>bytesbuffers.Pool\<close> (\<^verbatim>\<open>Get() *bytes.Buffer\<close>, \<^verbatim>\<open>Put(*bytes.Buffer)\<close>),
  \<^verbatim>\<open>codecs.Decoder\<close> (\<^verbatim>\<open>Decode(r io.Reader, v interface{}) error\<close>) and the next
  \<^verbatim>\<open>http.RoundTripper\<close> are collaborators: parameters that work on the heap and are taken to
  return.
\<close>

record pool =
  pool_Get :: "heap \<Rightarrow> addr \<times> heap"
  pool_Put :: "addr \<Rightarrow> heap \<Rightarrow> heap"

type_synonym 'o decoder = "stream \<Rightarrow> 'o \<Rightarrow> heap \<Rightarrow> error option \<times> heap"

record response =
  resp_Body :: "stream option"
  resp_ContentLength :: int

type_synonym roundTripper = "request \<Rightarrow> heap \<Rightarrow> (response option \<times> error option) \<times> heap"

record ('v, 'o) bodyMiddleware =
  requestInput :: "'v go_any"
  requestEncoder :: "'v encoder option"
  rawOutput :: bool
  responseOutput :: "'o option"
  responseDecoder :: "'o decoder option"
  bufferPool :: "pool option"

text \<open>
  The two closures that \<^verbatim>\<open>setRequestBody\<close> of the middleware can return as \<^verbatim>\<open>cleanup\<close>:
  \<^verbatim>\<open>func() {}\<close> and \<^verbatim>\<open>func() { b.bufferPool.Put(buf) }\<close>.
\<close>

datatype cleanup = CleanupNoop | CleanupPut pool addr

fun run_cleanup :: "cleanup \<Rightarrow> world \<Rightarrow> world" where
  "run_cleanup CleanupNoop w = w"
| "run_cleanup (CleanupPut p buf) w = (log (EvPoolPut buf) w)\<lparr>hp := pool_Put p buf (hp w)\<rparr>"

definition with_cleanup ::
  "cleanup \<Rightarrow> error option exec \<times> request \<times> world \<Rightarrow>
   (cleanup option \<times> error option) exec \<times> request \<times> world" where
  "with_cleanup c r =
     (case r of
        (Panics, req1, w1) \<Rightarrow> (Panics, req1, w1)
      | (Returns err, req1, w1) \<Rightarrow> (Returns (Some c, err), req1, w1))"

text \<open>
  \<^verbatim>\<open>func (b *bodyMiddleware) setRequestBody(req *http.Request) (func(), error)\<close>: the last
  statement is \<^verbatim>\<open>return cleanup, requestBody.setRequestBody(req)\<close>; the configuration error
  returns a nil cleanup.
\<close>

definition bodyMiddleware_setRequestBody ::
  "('v, 'o) bodyMiddleware \<Rightarrow> request \<Rightarrow> world \<Rightarrow>
   (cleanup option \<times> error option) exec \<times> request \<times> world" where
  "bodyMiddleware_setRequestBody b req w =
     (if requestInput b = NilAny
      then with_cleanup CleanupNoop (setRequestBody RequestBodyEmpty req w)
      else case requestEncoder b of
        Some enc \<Rightarrow>
          (case bufferPool b of
             Some p \<Rightarrow>
               (case call (pool_Get p) w of
                  (buf, w1) \<Rightarrow>
                    with_cleanup (CleanupPut p buf)
                      (setRequestBody (RequestBodyEncoderObjectBuffer (requestInput b) enc buf)
                         req (log (EvPoolGet buf) w1)))
           | None \<Rightarrow>
               with_cleanup CleanupNoop
                 (setRequestBody (RequestBodyEncoderObject (requestInput b) enc) req w))
      | None \<Rightarrow>
          (case requestInput b of
             RequestBodyAny body \<Rightarrow> with_cleanup CleanupNoop (setRequestBody body req w)
           | _ \<Rightarrow> (Returns (None, Some RequestInputNotRequestBody), req, w)))"

text \<open>\<^verbatim>\<open>func (b *bodyMiddleware) noRetriesRequestBody() bool\<close>.\<close>

definition bodyMiddleware_noRetriesRequestBody :: "('v, 'o) bodyMiddleware \<Rightarrow> bool" where
  "bodyMiddleware_noRetriesRequestBody b =
     (if requestEncoder b = None \<and> requestInput b \<noteq> NilAny
      then (case requestInput b of
              RequestBodyAny (NoRetriesRequestBody f) \<Rightarrow> True
            | _ \<Rightarrow> False)
      else False)"

text \<open>
  \<^verbatim>\<open>func (b *bodyMiddleware) readResponse(resp *http.Response, respErr error) error\<close>. The
  test \<^verbatim>\<open>b.responseOutput == nil || resp == nil || resp.Body == nil || resp.ContentLength == 0\<close>
  is evaluated from left to right. Calling \<^verbatim>\<open>Decode\<close> on a nil decoder panics.
\<close>

definition readResponse ::
  "('v, 'o) bodyMiddleware \<Rightarrow> response option \<Rightarrow> error option \<Rightarrow> world \<Rightarrow>
   error option exec \<times> world" where
  "readResponse b resp respErr w =
     (if rawOutput b \<and> respErr = None then (Returns None, w)
      else if respErr \<noteq> None then (Returns respErr, w)
      else case responseOutput b of
        None \<Rightarrow> (Returns None, w)
      | Some out \<Rightarrow>
          (case resp of
             None \<Rightarrow> (Returns None, w)
           | Some r \<Rightarrow>
               (case resp_Body r of
                  None \<Rightarrow> (Returns None, w)
                | Some body \<Rightarrow>
                    if resp_ContentLength r = 0 then (Returns None, w)
                    else (case responseDecoder b of
                            None \<Rightarrow> (Panics, w)
                          | Some dec \<Rightarrow>
                              (case call (dec body out) (log EvDecode w) of
                                 (decErr, w1) \<Rightarrow> (Returns decErr, w1))))))"

text \<open>
  \<^verbatim>\<open>func (b *bodyMiddleware) RoundTrip(req *http.Request, next http.RoundTripper) (*http.Response, error)\<close>.
  Calling a nil \<^verbatim>\<open>cleanup\<close> would panic.
\<close>

definition RoundTrip ::
  "('v, 'o) bodyMiddleware \<Rightarrow> request \<Rightarrow> roundTripper \<Rightarrow> world \<Rightarrow>
   (response option \<times> error option) exec \<times> request \<times> world" where
  "RoundTrip b req next w =
     (case bodyMiddleware_setRequestBody b req w of
        (Panics, req1, w1) \<Rightarrow> (Panics, req1, w1)
      | (Returns (cleanup, Some err), req1, w1) \<Rightarrow> (Returns (None, Some err), req1, w1)
      | (Returns (cleanup, None), req1, w1) \<Rightarrow>
          (case call (next req1) (log EvTransport w1) of
             ((resp, respErr), w2) \<Rightarrow>
               (case cleanup of
                  None \<Rightarrow> (Panics, req1, w2)
                | Some c \<Rightarrow>
                    (case readResponse b resp respErr (run_cleanup c (log EvCleanup w2)) of
                       (Panics, w3) \<Rightarrow> (Panics, req1, w3)
                     | (Returns (Some err), w3) \<Rightarrow> (Returns (None, Some err), req1, w3)
                     | (Returns None, w3) \<Rightarrow> (Returns (resp, None), req1, w3)))))"

section \<open>Reading a body and replaying it\<close>

text \<open>
  What a transport does with a replay function: call it, read the stream it returns to the
  end, and so on \<open>n\<close> times. The result lists what each replay delivered (\<open>None\<close> when
  the replay function returned no stream or an error).
\<close>

fun replay_reads :: "getBody \<Rightarrow> nat \<Rightarrow> heap \<Rightarrow> byte list option list \<times> heap" where
  "replay_reads gb 0 h = ([], h)"
| "replay_reads gb (Suc n) h =
     (case gb h of
        ((Some s, None), h1) \<Rightarrow>
          (case io_ReadAll s h1 of
             (bs, h2) \<Rightarrow> (case replay_reads gb n h2 of (rest, h3) \<Rightarrow> (Some bs # rest, h3)))
      | (_, h1) \<Rightarrow> (case replay_reads gb n h1 of (rest, h3) \<Rightarrow> (None # rest, h3)))"

section \<open>Concrete values used to exercise the definitions\<close>

text \<open>The zero value \<^verbatim>\<open>&http.Request{}\<close>, an empty heap and a world with an empty trace.\<close>

definition request0 :: request where
  "request0 = \<lparr>ContentLength = 0, Body = None, GetBody = None\<rparr>"

definition heap0 :: heap where
  "heap0 = \<lparr>objs = (\<lambda>_. StringsReader [] 0), arrays = (\<lambda>_. []), next_addr = 0\<rparr>"

definition world0 :: world where
  "world0 = \<lparr>hp = heap0, trace = []\<rparr>"

text \<open>The bytes of \<^verbatim>\<open>"hello"\<close> and \<^verbatim>\<open>"hi"\<close>.\<close>

definition hello :: "byte list" where
  "hello = [104, 101, 108, 108, 111]"

definition hi :: "byte list" where
  "hi = [104, 105]"

text \<open>A heap with \<^verbatim>\<open>bytes.NewBuffer([]byte("hello"))\<close> at address \<open>0\<close>.\<close>

definition heap_buf :: heap where
  "heap_buf = \<lparr>objs = (\<lambda>_. StringsReader [] 0)(0 := BytesBuffer (Slice 0 0 5) 0),
               arrays = (\<lambda>_. [])(0 := hello), next_addr = 1\<rparr>"

definition world_buf :: world where
  "world_buf = \<lparr>hp = heap_buf, trace = []\<rparr>"

text \<open>An encoder that produces \<^verbatim>\<open>"hi"\<close> for every value, and one that always fails.\<close>

definition enc_ok :: "unit encoder" where
  "enc_ok = \<lparr>Marshal = (\<lambda>_. Inr hi), Encode = (\<lambda>_. (hi, None))\<rparr>"

definition enc_fail :: "unit encoder" where
  "enc_fail = \<lparr>Marshal = (\<lambda>_. Inl (External 1)), Encode = (\<lambda>_. ([], Some (External 1)))\<rparr>"

text \<open>
  A pool whose \<^verbatim>\<open>Get\<close> makes a new empty buffer and whose \<^verbatim>\<open>Put\<close> resets the buffer it is
  given; a transport that answers with an empty response; a decoder that succeeds and one
  that fails; a factory that returns a reader over \<^verbatim>\<open>"hello"\<close>.
\<close>

definition pool0 :: pool where
  "pool0 = \<lparr>pool_Get = (\<lambda>h. case alloc_array [] h of (sl, h1) \<Rightarrow> alloc_obj (BytesBuffer sl 0) h1),
            pool_Put = (\<lambda>p h. h\<lparr>objs := (objs h)(p := drained (objs h p))\<rparr>)\<rparr>"

definition next_ok :: roundTripper where
  "next_ok = (\<lambda>req h. ((Some \<lparr>resp_Body = Some NoBody, resp_ContentLength = 0\<rparr>, None), h))"

definition dec_ok :: "unit decoder" where
  "dec_ok = (\<lambda>s out h. (None, snd (io_ReadAll s h)))"

definition dec_fail :: "unit decoder" where
  "dec_fail = (\<lambda>s out h. (Some (External 2), snd (io_ReadAll s h)))"

definition hello_factory :: func0 where
  "hello_factory = (\<lambda>h. case alloc_obj (StringsReader hello 0) h of (a, h1) \<Rightarrow> (Some (NopCloser a), h1))"

text \<open>A middleware with nothing configured, and a response with two bytes of body.\<close>

definition mw0 :: "(unit, unit) bodyMiddleware" where
  "mw0 = \<lparr>requestInput = NilAny, requestEncoder = None, rawOutput = False,
          responseOutput = None, responseDecoder = None, bufferPool = None\<rparr>"

definition resp2 :: response where
  "resp2 = \<lparr>resp_Body = Some (NopCloser 0), resp_ContentLength = 2\<rparr>"

definition next_resp2 :: roundTripper where
  "next_resp2 = (\<lambda>req h. ((Some resp2, None), h))"

text \<open>A heap in which the pool has just handed out a new, empty buffer (at address \<open>1\<close>).\<close>

definition world_pooled :: world where
  "world_pooled = \<lparr>hp = snd (pool_Get pool0 heap0), trace = []\<rparr>"

section \<open>Facts shared by the proofs\<close>

lemma with_cleanup_simps [simp]:
  "with_cleanup c (Panics, req1, w1) = (Panics, req1, w1)"
  "with_cleanup c (Returns err, req1, w1) = (Returns (Some c, err), req1, w1)"
  by (simp_all add: with_cleanup_def)

lemma setRequestBody_Empty:
  "setRequestBody RequestBodyEmpty req w =
     (Returns None, req\<lparr>ContentLength := 0, Body := Some NoBody, GetBody := None\<rparr>, w)"
  by (simp add: RequestBodyEmpty_def requestBodyFunc_setRequestBody_def)

lemma trace_call_eq: "call f w = (r, w') \<Longrightarrow> trace w' = trace w"
  by (auto simp: call_def split: prod.splits)

lemma trace_log [simp]: "trace (log e w) = trace w @ [e]"
  by (simp add: log_def)

lemma trace_run_cleanup:
  "trace (run_cleanup c w) =
     trace w @ (case c of CleanupNoop \<Rightarrow> [] | CleanupPut p buf \<Rightarrow> [EvPoolPut buf])"
  by (cases c) simp_all

lemma trace_readResponse:
  "readResponse b resp respErr w = (r, w') \<Longrightarrow>
     trace w' = trace w \<or> trace w' = trace w @ [EvDecode]"
  by (auto simp: readResponse_def split: if_splits option.splits prod.splits
           dest!: trace_call_eq)

lemma bodyMiddleware_setRequestBody_cleanup:
  "bodyMiddleware_setRequestBody b req w = (Returns (c, None), req1, w1) \<Longrightarrow>
     c = Some (if requestInput b \<noteq> NilAny \<and> requestEncoder b \<noteq> None
               then (case bufferPool b of
                       Some p \<Rightarrow> CleanupPut p (fst (pool_Get p (hp w)))
                     | None \<Rightarrow> CleanupNoop)
               else CleanupNoop)"
  by (auto simp: bodyMiddleware_setRequestBody_def with_cleanup_def call_def
           split: if_splits option.splits prod.splits exec.splits go_any.splits)

lemma streamOnce_func_getBody:
  "streamOnce_func i w = (Returns (n, body, gb, err), w1) \<Longrightarrow> gb = None"
  by (cases "(i, w)" rule: streamOnce_func.cases) (auto split: prod.splits)

lemma setRequestBody_streamOnce:
  "setRequestBody (RequestBodyStreamOnce i) req w = (r, req', w') \<Longrightarrow>
     (r = Returns None \<longrightarrow> GetBody req' = None) \<and> (r \<noteq> Returns None \<longrightarrow> req' = req)"
  by (auto simp: RequestBodyStreamOnce_def requestBodyFunc_setRequestBody_def
           split: prod.splits exec.splits if_splits dest: streamOnce_func_getBody)

lemma getBody_snapshot_apply:
  "getBody_snapshot v h =
     ((Some (NopCloser (next_addr h)), None),
      h\<lparr>objs := (objs h)(next_addr h := v), next_addr := Suc (next_addr h)\<rparr>)"
  by (simp add: getBody_snapshot_def alloc_obj_def)

lemma getBody_raw_snapshot: "getBody_raw raw = getBody_snapshot (BytesReader raw 0)"
  by (simp add: getBody_raw_def getBody_snapshot_def)

lemma arrays_io_ReadAll [simp]: "arrays (snd (io_ReadAll s h)) = arrays h"
  by (cases s) simp_all

lemma read_fresh_snapshot:
  "io_ReadAll (NopCloser (next_addr h))
     (h\<lparr>objs := (objs h)(next_addr h := v), next_addr := Suc (next_addr h)\<rparr>) = (bs, h2)
   \<Longrightarrow> bs = unread (arrays h) v \<and> arrays h2 = arrays h"
  by auto

text \<open>
  Every replay of a snapshot delivers the snapshot's unread bytes: each call copies the
  snapshot into a new reader, and neither the copy nor reading it touches a backing array.
\<close>

lemma replay_reads_snapshot:
  "fst (replay_reads (getBody_snapshot v) n h) = replicate n (Some (unread (arrays h) v))"
proof (induction n arbitrary: h)
  case 0
  show ?case by simp
next
  case (Suc n)
  let ?h1 = "h\<lparr>objs := (objs h)(next_addr h := v), next_addr := Suc (next_addr h)\<rparr>"
  obtain bs h2 where r: "io_ReadAll (NopCloser (next_addr h)) ?h1 = (bs, h2)"
    by (metis prod.exhaust)
  from read_fresh_snapshot[OF r] have bs: "bs = unread (arrays h) v" and a: "arrays h2 = arrays h"
    by simp_all
  obtain rest h3 where rr: "replay_reads (getBody_snapshot v) n h2 = (rest, h3)"
    by (metis prod.exhaust)
  have rest: "rest = replicate n (Some (unread (arrays h) v))"
    using Suc.IH[of h2] rr a by simp
  have g: "getBody_snapshot v h = ((Some (NopCloser (next_addr h)), None), ?h1)"
    by (rule getBody_snapshot_apply)
  show ?case
    using g r rr bs rest by (simp del: io_ReadAll.simps)
qed

lemma Len_unread: "wf_inmem A v \<Longrightarrow> Len v = int (length (unread A v))"
  by (cases v rule: Len.cases) (auto simp: min_def)

lemma setRequestBody_InMemory:
  "setRequestBody (RequestBodyInMemory (Some p)) req w =
     (Returns None,
      req\<lparr>ContentLength := Len (objs (hp w) p),
          Body := Some (NopCloser (next_addr (hp w))),
          GetBody := Some (getBody_snapshot (objs (hp w) p))\<rparr>,
      w\<lparr>hp := (hp w)\<lparr>objs := (objs (hp w))(next_addr (hp w) := objs (hp w) p),
                      next_addr := Suc (next_addr (hp w))\<rparr>\<rparr>)"
proof -
  have g: "getBody_snapshot (objs (hp w) p) (hp w) =
     ((Some (NopCloser (next_addr (hp w))), None),
      (hp w)\<lparr>objs := (objs (hp w))(next_addr (hp w) := objs (hp w) p),
              next_addr := Suc (next_addr (hp w))\<rparr>)"
    by (rule getBody_snapshot_apply)
  show ?thesis
    using g
    by (simp add: RequestBodyInMemory_def requestBodyFunc_setRequestBody_def call_def
          contentLengthInMemory_def Let_def)
qed

lemma setRequestBody_EncoderObject:
  assumes "Marshal enc v = Inr bs"
  shows "setRequestBody (RequestBodyEncoderObject v enc) req w =
     (Returns None,
      req\<lparr>ContentLength := int (length bs),
          Body := Some (NopCloser (Suc (next_addr (hp w)))),
          GetBody := Some (getBody_raw (Slice (next_addr (hp w)) 0 (length bs)))\<rparr>,
      w\<lparr>hp := (hp w)\<lparr>arrays := (arrays (hp w))(next_addr (hp w) := bs),
                      objs := (objs (hp w))(Suc (next_addr (hp w)) :=
                                 BytesReader (Slice (next_addr (hp w)) 0 (length bs)) 0),
                      next_addr := Suc (Suc (next_addr (hp w)))\<rparr>,
         trace := trace w @ [EvMarshal]\<rparr>)"
proof -
  let ?a = "next_addr (hp w)"
  let ?raw = "Slice ?a 0 (length bs)"
  let ?h1 = "(hp w)\<lparr>arrays := (arrays (hp w))(?a := bs), next_addr := Suc ?a\<rparr>"
  have g: "getBody_raw ?raw ?h1 =
     ((Some (NopCloser (Suc ?a)), None),
      ?h1\<lparr>objs := (objs ?h1)(Suc ?a := BytesReader ?raw 0), next_addr := Suc (Suc ?a)\<rparr>)"
    by (simp add: getBody_raw_def alloc_obj_def)
  show ?thesis
    using g assms
    by (simp add: RequestBodyEncoderObject_def requestBodyFunc_setRequestBody_def call_def
          alloc_array_def log_def Let_def)
qed

text \<open>The unread part of a buffer after a write is the old unread part and the new bytes.\<close>

lemma unread_after_Write:
  assumes "s + k \<le> length A" "off \<le> k"
  shows "take (k + length written - off)
           (drop (s + off) (take (s + k) A @ written @ rest)) =
         drop off (take k (drop s A)) @ written"
proof -
  have "drop (s + off) (take (s + k) A @ written @ rest) =
          drop (s + off) (take (s + k) A) @ written @ rest"
    using assms by simp
  also have "drop (s + off) (take (s + k) A) = drop off (take k (drop s A))"
    by (simp add: drop_take add.commute)
  finally have e:
    "drop (s + off) (take (s + k) A @ written @ rest) =
       (drop off (take k (drop s A)) @ written) @ rest"
    by simp
  have "length (drop off (take k (drop s A)) @ written) = k + length written - off"
    using assms by simp
  then show ?thesis
    unfolding e by simp
qed

lemma setRequestBody_EncoderObjectBuffer:
  assumes "Encode enc v = (written, None)"
      and "objs (hp w) buffer = BytesBuffer (Slice a s k) off"
  shows "setRequestBody (RequestBodyEncoderObjectBuffer v enc buffer) req w =
     (Returns None,
      req\<lparr>ContentLength := int (k + length written - off),
          Body := Some (NopCloser (next_addr (hp w))),
          GetBody := Some (getBody_raw (Slice a (s + off) (k + length written - off)))\<rparr>,
      w\<lparr>hp := (hp w)\<lparr>objs := (objs (hp w))
                         (buffer := BytesBuffer (Slice a s (k + length written)) off,
                          next_addr (hp w) :=
                            BytesReader (Slice a (s + off) (k + length written - off)) 0),
                      arrays := (arrays (hp w))(a := take (s + k) (arrays (hp w) a) @ written
                                    @ drop (s + k + length written) (arrays (hp w) a)),
                      next_addr := Suc (next_addr (hp w))\<rparr>,
         trace := trace w @ [EvEncode buffer]\<rparr>)"
proof -
  let ?raw = "Slice a (s + off) (k + length written - off)"
  let ?h1 = "(hp w)\<lparr>objs := (objs (hp w))(buffer := BytesBuffer (Slice a s (k + length written)) off),
                    arrays := (arrays (hp w))(a := take (s + k) (arrays (hp w) a) @ written
                                    @ drop (s + k + length written) (arrays (hp w) a))\<rparr>"
  have w1: "buffer_Write buffer written (hp w) = ?h1"
    using assms(2) by (simp add: buffer_Write_def)
  have raw: "buffer_Bytes buffer ?h1 = ?raw"
    by (simp add: buffer_Bytes_def)
  have g: "getBody_raw ?raw ?h1 =
     ((Some (NopCloser (next_addr (hp w))), None),
      ?h1\<lparr>objs := (objs ?h1)(next_addr (hp w) := BytesReader ?raw 0),
          next_addr := Suc (next_addr (hp w))\<rparr>)"
    by (simp add: getBody_raw_def alloc_obj_def)
  show ?thesis
    using g assms(1) w1 raw
    by (simp add: RequestBodyEncoderObjectBuffer_def requestBodyFunc_setRequestBody_def call_def
          log_def Let_def)
qed

lemma trace_EncoderObject:
  "trace (snd (snd (setRequestBody (RequestBodyEncoderObject v enc) req w))) =
     trace w @ [EvMarshal]"
  by (auto simp: RequestBodyEncoderObject_def requestBodyFunc_setRequestBody_def call_def
        log_def Let_def split: sum.splits prod.splits)

lemma trace_EncoderObjectBuffer:
  "trace (snd (snd (setRequestBody (RequestBodyEncoderObjectBuffer v enc buffer) req w))) =
     trace w @ [EvEncode buffer]"
  by (auto simp: RequestBodyEncoderObjectBuffer_def requestBodyFunc_setRequestBody_def call_def
        log_def Let_def split: prod.splits)

lemma snd_with_cleanup [simp]: "snd (snd (with_cleanup c r)) = snd (snd r)"
  by (simp add: with_cleanup_def split: prod.splits exec.splits)

text \<open>
  What the middleware's \<^verbatim>\<open>setRequestBody\<close> adds to the trace when it builds the body itself:
  nothing for a nil input, \<^verbatim>\<open>Get\<close> and \<^verbatim>\<open>Encode\<close> with a pool, \<^verbatim>\<open>Marshal\<close> without.
\<close>

lemma trace_bodyMiddleware_setRequestBody:
  assumes "requestInput b = NilAny \<or> requestEncoder b \<noteq> None"
  shows "\<exists>evs. trace (snd (snd (bodyMiddleware_setRequestBody b req w))) = trace w @ evs
           \<and> EvTransport \<notin> set evs \<and> EvCleanup \<notin> set evs \<and> (\<forall>a. EvPoolPut a \<notin> set evs)"
proof (cases "requestInput b = NilAny")
  case True
  then have "trace (snd (snd (bodyMiddleware_setRequestBody b req w))) = trace w @ []"
    by (simp add: bodyMiddleware_setRequestBody_def setRequestBody_Empty)
  then show ?thesis
    by (intro exI[of _ "[]"]) simp
next
  case False
  with assms obtain enc where enc: "requestEncoder b = Some enc"
    by auto
  show ?thesis
  proof (cases "bufferPool b")
    case None
    with False enc
    have "trace (snd (snd (bodyMiddleware_setRequestBody b req w))) = trace w @ [EvMarshal]"
      by (simp add: bodyMiddleware_setRequestBody_def trace_EncoderObject)
    then show ?thesis
      by (intro exI[of _ "[EvMarshal]"]) simp
  next
    case (Some p)
    obtain buf h1 where g: "pool_Get p (hp w) = (buf, h1)"
      by (metis prod.exhaust)
    with False enc Some
    have "trace (snd (snd (bodyMiddleware_setRequestBody b req w))) =
            trace w @ [EvPoolGet buf, EvEncode buf]"
      by (simp add: bodyMiddleware_setRequestBody_def call_def trace_EncoderObjectBuffer)
    then show ?thesis
      by (intro exI[of _ "[EvPoolGet buf, EvEncode buf]"]) simp
  qed
qed

text \<open>
  The bodies of the stream and in-memory constructors call no collaborator of the
  middleware: setting them on a request leaves the trace as it was.
\<close>

lemma trace_streamOnce_func: "trace (snd (streamOnce_func i w)) = trace w"
  by (cases "(i, w)" rule: streamOnce_func.cases) (auto simp: call_def split: prod.splits)

lemma trace_streamWithReplay_func: "trace (snd (streamWithReplay_func i w)) = trace w"
  by (cases "(i, w)" rule: streamWithReplay_func.cases) (auto simp: call_def split: prod.splits)

lemma trace_requestBodyFunc_setRequestBody:
  "trace (snd (snd (requestBodyFunc_setRequestBody f req w))) = trace (snd (f w))"
  by (auto simp: requestBodyFunc_setRequestBody_def split: prod.splits exec.splits)

lemma trace_stream_bodies:
  "trace (snd (snd (setRequestBody RequestBodyEmpty req w))) = trace w"
  "trace (snd (snd (setRequestBody (RequestBodyInMemory p) req w))) = trace w"
  "trace (snd (snd (setRequestBody (RequestBodyStreamOnce i) req w))) = trace w"
  "trace (snd (snd (setRequestBody (RequestBodyStreamWithReplay i) req w))) = trace w"
proof -
  show "trace (snd (snd (setRequestBody RequestBodyEmpty req w))) = trace w"
    by (simp add: setRequestBody_Empty)
  show "trace (snd (snd (setRequestBody (RequestBodyInMemory p) req w))) = trace w"
  proof (cases p)
    case None
    then show ?thesis
      by (simp add: RequestBodyInMemory_def requestBodyFunc_setRequestBody_def)
  next
    case (Some a)
    then show ?thesis
      by (simp add: setRequestBody_InMemory)
  qed
  show "trace (snd (snd (setRequestBody (RequestBodyStreamOnce i) req w))) = trace w"
    by (simp add: RequestBodyStreamOnce_def trace_requestBodyFunc_setRequestBody
          trace_streamOnce_func)
  show "trace (snd (snd (setRequestBody (RequestBodyStreamWithReplay i) req w))) = trace w"
    by (simp add: RequestBodyStreamWithReplay_def trace_requestBodyFunc_setRequestBody
          trace_streamWithReplay_func)
qed

section \<open>C1: the cleanup action in \<^verbatim>\<open>RoundTrip\<close>\<close>

text \<open>
  Two exchanges in which building the request body fails, each with a buffer pool
  configured. In the first the request input is an object and no encoder is configured:
  \<^verbatim>\<open>RoundTrip\<close> returns the configuration error and the trace is empty, so no cleanup
  action has run. In the second the encoder fails: \<^verbatim>\<open>RoundTrip\<close> takes a buffer from the
  pool, calls the encoder and returns the encoder's error; the trace ends there, with no
  call of the transport, no run of the cleanup function and no \<^verbatim>\<open>Put\<close>.
\<close>

theorem cleanup_skipped_counterexample:
  "RoundTrip (mw0\<lparr>requestInput := ObjectAny (), bufferPool := Some pool0\<rparr>)
     request0 next_ok world0 =
     (Returns (None, Some RequestInputNotRequestBody), request0, world0)
   \<and> trace world0 = []
   \<and> fst (RoundTrip (mw0\<lparr>requestInput := ObjectAny (), requestEncoder := Some enc_fail,
                         bufferPool := Some pool0\<rparr>) request0 next_ok world0) =
     Returns (None, Some (External 1))
   \<and> trace (snd (snd (RoundTrip (mw0\<lparr>requestInput := ObjectAny (),
                                      requestEncoder := Some enc_fail,
                                      bufferPool := Some pool0\<rparr>) request0 next_ok world0))) =
     [EvPoolGet 1, EvEncode 1]"
  by (simp add: RoundTrip_def bodyMiddleware_setRequestBody_def mw0_def enc_fail_def pool0_def
        world0_def heap0_def request0_def call_def alloc_array_def alloc_obj_def log_def
        RequestBodyEncoderObjectBuffer_def requestBodyFunc_setRequestBody_def buffer_Write_def
        Let_def)

text \<open>
  C1 (as amended). For every exchange in which \<^verbatim>\<open>setRequestBody\<close> of the middleware
  returns without error, \<^verbatim>\<open>RoundTrip\<close> runs the cleanup action that \<^verbatim>\<open>setRequestBody\<close>
  produced exactly once, after the transport stage has returned and before \<^verbatim>\<open>RoundTrip\<close>
  returns, whatever the transport returns and whether or not decoding fails afterwards. The
  cleanup action returns the buffer to the pool when the request input is not nil and both
  an encoder and a pool are configured, and does nothing otherwise. When the middleware
  builds the body itself (nil input, or an encoder configured), nothing between the entry
  of \<^verbatim>\<open>RoundTrip\<close> and the transport call runs the cleanup or returns a buffer.
\<close>

theorem cleanup_once_after_transport:
  assumes "bodyMiddleware_setRequestBody b req w = (Returns (c, None), req1, w1)"
  shows "(\<exists>c' r w3 decs.
           c = Some c'
           \<and> c' = (if requestInput b \<noteq> NilAny \<and> requestEncoder b \<noteq> None
                   then (case bufferPool b of
                           Some p \<Rightarrow> CleanupPut p (fst (pool_Get p (hp w)))
                         | None \<Rightarrow> CleanupNoop)
                   else CleanupNoop)
           \<and> RoundTrip b req next w = (r, req1, w3)
           \<and> trace w3 = trace w1 @ [EvTransport, EvCleanup]
                @ (case c' of CleanupNoop \<Rightarrow> [] | CleanupPut p buf \<Rightarrow> [EvPoolPut buf]) @ decs
           \<and> (decs = [] \<or> decs = [EvDecode]))
         \<and> (requestInput b = NilAny \<or> requestEncoder b \<noteq> None \<longrightarrow>
              (\<exists>evs. trace w1 = trace w @ evs \<and> EvTransport \<notin> set evs \<and> EvCleanup \<notin> set evs
                     \<and> (\<forall>a. EvPoolPut a \<notin> set evs)))"
proof (intro conjI impI)
  define cc where "cc = (if requestInput b \<noteq> NilAny \<and> requestEncoder b \<noteq> None
            then (case bufferPool b of
                    Some p \<Rightarrow> CleanupPut p (fst (pool_Get p (hp w)))
                  | None \<Rightarrow> CleanupNoop)
            else CleanupNoop)"
  have c: "c = Some cc"
    using bodyMiddleware_setRequestBody_cleanup[OF assms] by (simp add: cc_def)
  obtain resp respErr w2 where n: "call (next req1) (log EvTransport w1) = ((resp, respErr), w2)"
    by (metis prod.exhaust)
  obtain rr w3 where rd: "readResponse b resp respErr (run_cleanup cc (log EvCleanup w2)) = (rr, w3)"
    by (metis prod.exhaust)
  have t2: "trace w2 = trace w1 @ [EvTransport]"
    using trace_call_eq[OF n] by simp
  have tc: "trace (run_cleanup cc (log EvCleanup w2)) =
              trace w1 @ [EvTransport, EvCleanup]
                @ (case cc of CleanupNoop \<Rightarrow> [] | CleanupPut p buf \<Rightarrow> [EvPoolPut buf])"
    by (simp only: trace_run_cleanup trace_log t2) simp
  from trace_readResponse[OF rd] obtain decs where
    d: "trace w3 = trace (run_cleanup cc (log EvCleanup w2)) @ decs"
       "decs = [] \<or> decs = [EvDecode]"
    by auto
  have "\<exists>r. RoundTrip b req next w = (r, req1, w3)"
    using assms[unfolded c] n rd by (simp add: RoundTrip_def split: exec.splits option.splits)
  then obtain r where rt: "RoundTrip b req next w = (r, req1, w3)" ..
  have "c = Some cc
        \<and> cc = (if requestInput b \<noteq> NilAny \<and> requestEncoder b \<noteq> None
                then (case bufferPool b of
                        Some p \<Rightarrow> CleanupPut p (fst (pool_Get p (hp w)))
                      | None \<Rightarrow> CleanupNoop)
                else CleanupNoop)
        \<and> RoundTrip b req next w = (r, req1, w3)
        \<and> trace w3 = trace w1 @ [EvTransport, EvCleanup]
             @ (case cc of CleanupNoop \<Rightarrow> [] | CleanupPut p buf \<Rightarrow> [EvPoolPut buf]) @ decs
        \<and> (decs = [] \<or> decs = [EvDecode])"
    using c rt d tc cc_def by simp
  then show "\<exists>c' r w3 decs.
           c = Some c'
           \<and> c' = (if requestInput b \<noteq> NilAny \<and> requestEncoder b \<noteq> None
                   then (case bufferPool b of
                           Some p \<Rightarrow> CleanupPut p (fst (pool_Get p (hp w)))
                         | None \<Rightarrow> CleanupNoop)
                   else CleanupNoop)
           \<and> RoundTrip b req next w = (r, req1, w3)
           \<and> trace w3 = trace w1 @ [EvTransport, EvCleanup]
                @ (case c' of CleanupNoop \<Rightarrow> [] | CleanupPut p buf \<Rightarrow> [EvPoolPut buf]) @ decs
           \<and> (decs = [] \<or> decs = [EvDecode])"
    by (intro exI)
next
  assume "requestInput b = NilAny \<or> requestEncoder b \<noteq> None"
  from trace_bodyMiddleware_setRequestBody[OF this, of req w]
  show "\<exists>evs. trace w1 = trace w @ evs \<and> EvTransport \<notin> set evs \<and> EvCleanup \<notin> set evs
              \<and> (\<forall>a. EvPoolPut a \<notin> set evs)"
    by (simp add: assms)
qed

theorem cleanup_once_after_transport_witness:
  "\<exists>r req1 w3 decs.
     RoundTrip (mw0\<lparr>requestInput := ObjectAny (), requestEncoder := Some enc_ok,
                    bufferPool := Some pool0\<rparr>) request0 next_ok world0 = (r, req1, w3)
     \<and> trace w3 = [EvPoolGet 1, EvEncode 1, EvTransport, EvCleanup, EvPoolPut 1] @ decs
     \<and> (decs = [] \<or> decs = [EvDecode])"
proof -
  let ?b = "mw0\<lparr>requestInput := ObjectAny (), requestEncoder := Some enc_ok,
                bufferPool := Some pool0\<rparr>"
  obtain x req1 w1 where s: "bodyMiddleware_setRequestBody ?b request0 world0 = (x, req1, w1)"
    by (metis prod.exhaust)
  have "fst (bodyMiddleware_setRequestBody ?b request0 world0) =
          Returns (Some (CleanupPut pool0 1), None)"
    by (simp add: bodyMiddleware_setRequestBody_def mw0_def enc_ok_def pool0_def world0_def
          heap0_def request0_def call_def alloc_array_def alloc_obj_def log_def
          RequestBodyEncoderObjectBuffer_def requestBodyFunc_setRequestBody_def
          buffer_Write_def buffer_Bytes_def getBody_raw_def Let_def)
  with s have x: "x = Returns (Some (CleanupPut pool0 1), None)"
    by simp
  have "trace (snd (snd (bodyMiddleware_setRequestBody ?b request0 world0))) =
          [EvPoolGet 1, EvEncode 1]"
    by (simp add: bodyMiddleware_setRequestBody_def mw0_def enc_ok_def pool0_def world0_def
          heap0_def request0_def call_def alloc_array_def alloc_obj_def log_def
          RequestBodyEncoderObjectBuffer_def requestBodyFunc_setRequestBody_def
          buffer_Write_def buffer_Bytes_def getBody_raw_def Let_def)
  with s have t: "trace w1 = [EvPoolGet 1, EvEncode 1]"
    by simp
  have p: "fst (pool_Get pool0 (hp world0)) = 1"
    by (simp add: bodyMiddleware_setRequestBody_def mw0_def enc_ok_def pool0_def world0_def
          heap0_def request0_def call_def alloc_array_def alloc_obj_def log_def
          RequestBodyEncoderObjectBuffer_def requestBodyFunc_setRequestBody_def
          buffer_Write_def buffer_Bytes_def getBody_raw_def Let_def)
  from cleanup_once_after_transport[OF s[unfolded x], of next_ok, THEN conjunct1] t p
  show ?thesis
    by (simp add: mw0_def) blast
qed

section \<open>C2: the decision order of the middleware's \<^verbatim>\<open>setRequestBody\<close>\<close>

text \<open>
  C2. \<^verbatim>\<open>bodyMiddleware.setRequestBody\<close> chooses the body in this order: a nil request input
  gives the empty body; else, with an encoder configured, the encoder-produced body (written
  into a buffer taken from the pool when a pool is configured, else allocated by the
  encoder); else a request input that is a \<^verbatim>\<open>RequestBody\<close> is used as it is; otherwise the
  configuration error is returned, and \<^verbatim>\<open>RoundTrip\<close> returns it with the request, the heap
  and the trace untouched: the transport stage is not called.
\<close>

theorem setRequestBody_decision_order:
  "(requestInput b = NilAny \<longrightarrow>
      bodyMiddleware_setRequestBody b req w =
        with_cleanup CleanupNoop (setRequestBody RequestBodyEmpty req w)
      \<and> bodyMiddleware_setRequestBody b req w =
        (Returns (Some CleanupNoop, None),
         req\<lparr>ContentLength := 0, Body := Some NoBody, GetBody := None\<rparr>, w))
   \<and> (requestInput b \<noteq> NilAny \<and> requestEncoder b = Some enc \<and> bufferPool b = Some p \<longrightarrow>
      bodyMiddleware_setRequestBody b req w =
        (case call (pool_Get p) w of
           (buf, w1) \<Rightarrow>
             with_cleanup (CleanupPut p buf)
               (setRequestBody (RequestBodyEncoderObjectBuffer (requestInput b) enc buf)
                  req (log (EvPoolGet buf) w1)))
      \<and> trace (snd (snd (bodyMiddleware_setRequestBody b req w))) =
          trace w @ [EvPoolGet (fst (pool_Get p (hp w))), EvEncode (fst (pool_Get p (hp w)))])
   \<and> (requestInput b \<noteq> NilAny \<and> requestEncoder b = Some enc \<and> bufferPool b = None \<longrightarrow>
      bodyMiddleware_setRequestBody b req w =
        with_cleanup CleanupNoop
          (setRequestBody (RequestBodyEncoderObject (requestInput b) enc) req w)
      \<and> trace (snd (snd (bodyMiddleware_setRequestBody b req w))) = trace w @ [EvMarshal])
   \<and> (requestInput b = RequestBodyAny body \<and> requestEncoder b = None \<longrightarrow>
      bodyMiddleware_setRequestBody b req w =
        with_cleanup CleanupNoop (setRequestBody body req w))
   \<and> (requestInput b = ObjectAny v \<and> requestEncoder b = None \<longrightarrow>
      bodyMiddleware_setRequestBody b req w =
        (Returns (None, Some RequestInputNotRequestBody), req, w)
      \<and> RoundTrip b req next w = (Returns (None, Some RequestInputNotRequestBody), req, w))"
proof (intro conjI impI)
  assume "requestInput b = NilAny"
  then show "bodyMiddleware_setRequestBody b req w =
        with_cleanup CleanupNoop (setRequestBody RequestBodyEmpty req w)"
    by (simp add: bodyMiddleware_setRequestBody_def)
  then show "bodyMiddleware_setRequestBody b req w =
        (Returns (Some CleanupNoop, None),
         req\<lparr>ContentLength := 0, Body := Some NoBody, GetBody := None\<rparr>, w)"
    by (simp add: setRequestBody_Empty)
next
  assume a: "requestInput b \<noteq> NilAny \<and> requestEncoder b = Some enc \<and> bufferPool b = Some p"
  then show e: "bodyMiddleware_setRequestBody b req w =
        (case call (pool_Get p) w of
           (buf, w1) \<Rightarrow>
             with_cleanup (CleanupPut p buf)
               (setRequestBody (RequestBodyEncoderObjectBuffer (requestInput b) enc buf)
                  req (log (EvPoolGet buf) w1)))"
    by (simp add: bodyMiddleware_setRequestBody_def)
  obtain buf h1 where g: "pool_Get p (hp w) = (buf, h1)"
    by (metis prod.exhaust)
  show "trace (snd (snd (bodyMiddleware_setRequestBody b req w))) =
          trace w @ [EvPoolGet (fst (pool_Get p (hp w))), EvEncode (fst (pool_Get p (hp w)))]"
    unfolding e by (simp add: call_def g trace_EncoderObjectBuffer)
next
  assume a: "requestInput b \<noteq> NilAny \<and> requestEncoder b = Some enc \<and> bufferPool b = None"
  then show e: "bodyMiddleware_setRequestBody b req w =
        with_cleanup CleanupNoop
          (setRequestBody (RequestBodyEncoderObject (requestInput b) enc) req w)"
    by (simp add: bodyMiddleware_setRequestBody_def)
  show "trace (snd (snd (bodyMiddleware_setRequestBody b req w))) = trace w @ [EvMarshal]"
    unfolding e by (simp add: trace_EncoderObject)
next
  assume "requestInput b = RequestBodyAny body \<and> requestEncoder b = None"
  then show "bodyMiddleware_setRequestBody b req w =
        with_cleanup CleanupNoop (setRequestBody body req w)"
    by (simp add: bodyMiddleware_setRequestBody_def)
next
  assume a: "requestInput b = ObjectAny v \<and> requestEncoder b = None"
  then show e: "bodyMiddleware_setRequestBody b req w =
        (Returns (None, Some RequestInputNotRequestBody), req, w)"
    by (simp add: bodyMiddleware_setRequestBody_def)
  show "RoundTrip b req next w = (Returns (None, Some RequestInputNotRequestBody), req, w)"
    by (simp add: RoundTrip_def e)
qed

theorem setRequestBody_decision_order_witness:
  "bodyMiddleware_setRequestBody mw0 request0 world0 =
     (Returns (Some CleanupNoop, None),
      request0\<lparr>ContentLength := 0, Body := Some NoBody, GetBody := None\<rparr>, world0)
   \<and> fst (bodyMiddleware_setRequestBody
            (mw0\<lparr>requestInput := ObjectAny (), requestEncoder := Some enc_fail,
                 bufferPool := Some pool0\<rparr>) request0 world0) =
       Returns (Some (CleanupPut pool0 1), Some (External 1))
   \<and> bodyMiddleware_setRequestBody
        (mw0\<lparr>requestInput := ObjectAny (), requestEncoder := Some enc_fail\<rparr>) request0 world0 =
       (Returns (Some CleanupNoop, Some (External 1)), request0, log EvMarshal world0)
   \<and> bodyMiddleware_setRequestBody
        (mw0\<lparr>requestInput := RequestBodyAny RequestBodyEmpty\<rparr>) request0 world0 =
       (Returns (Some CleanupNoop, None),
        request0\<lparr>ContentLength := 0, Body := Some NoBody, GetBody := None\<rparr>, world0)
   \<and> RoundTrip (mw0\<lparr>requestInput := ObjectAny ()\<rparr>) request0 next_ok world0 =
       (Returns (None, Some RequestInputNotRequestBody), request0, world0)"
proof -
  have a: "bodyMiddleware_setRequestBody mw0 request0 world0 =
     (Returns (Some CleanupNoop, None),
      request0\<lparr>ContentLength := 0, Body := Some NoBody, GetBody := None\<rparr>, world0)"
    using setRequestBody_decision_order[where b = mw0 and req = request0 and w = world0]
    by (simp add: mw0_def setRequestBody_Empty)
  have b: "fst (bodyMiddleware_setRequestBody
            (mw0\<lparr>requestInput := ObjectAny (), requestEncoder := Some enc_fail,
                 bufferPool := Some pool0\<rparr>) request0 world0) =
       Returns (Some (CleanupPut pool0 1), Some (External 1))"
    using setRequestBody_decision_order
      [where b = "mw0\<lparr>requestInput := ObjectAny (), requestEncoder := Some enc_fail,
                       bufferPool := Some pool0\<rparr>"
         and enc = enc_fail and p = pool0 and req = request0 and w = world0]
    by (simp add: mw0_def)
       (simp add: enc_fail_def pool0_def world0_def heap0_def call_def alloc_array_def
          alloc_obj_def RequestBodyEncoderObjectBuffer_def requestBodyFunc_setRequestBody_def
          Let_def)
  have c: "bodyMiddleware_setRequestBody
        (mw0\<lparr>requestInput := ObjectAny (), requestEncoder := Some enc_fail\<rparr>) request0 world0 =
       (Returns (Some CleanupNoop, Some (External 1)), request0, log EvMarshal world0)"
    using setRequestBody_decision_order
      [where b = "mw0\<lparr>requestInput := ObjectAny (), requestEncoder := Some enc_fail\<rparr>"
         and enc = enc_fail and req = request0 and w = world0]
    by (simp add: mw0_def)
       (simp add: enc_fail_def RequestBodyEncoderObject_def requestBodyFunc_setRequestBody_def)
  have d: "bodyMiddleware_setRequestBody
        (mw0\<lparr>requestInput := RequestBodyAny RequestBodyEmpty\<rparr>) request0 world0 =
       (Returns (Some CleanupNoop, None),
        request0\<lparr>ContentLength := 0, Body := Some NoBody, GetBody := None\<rparr>, world0)"
    using setRequestBody_decision_order
      [where b = "mw0\<lparr>requestInput := RequestBodyAny RequestBodyEmpty\<rparr>"
         and body = RequestBodyEmpty and req = request0 and w = world0]
    by (simp add: mw0_def setRequestBody_Empty)
  have e: "RoundTrip (mw0\<lparr>requestInput := ObjectAny ()\<rparr>) request0 next_ok world0 =
       (Returns (None, Some RequestInputNotRequestBody), request0, world0)"
    using setRequestBody_decision_order
      [where b = "mw0\<lparr>requestInput := ObjectAny ()\<rparr>" and v = "()" and req = request0
         and w = world0 and ?next = next_ok]
    by (simp add: mw0_def)
  from a b c d e show ?thesis
    by (intro conjI)
qed

section \<open>C3: the order of \<^verbatim>\<open>readResponse\<close>\<close>

text \<open>
  C3. \<^verbatim>\<open>bodyMiddleware.readResponse\<close> evaluates in this order: with \<^verbatim>\<open>rawOutput\<close> set and
  no transport error it returns nil and touches nothing (no decoder call); else a transport
  error is returned as it is, without decoding; else with no output target, no response, no
  body or a \<^verbatim>\<open>ContentLength\<close> of exactly 0 it returns nil without decoding; otherwise the
  decoder is called and its result is returned. In \<^verbatim>\<open>RoundTrip\<close>, an error from
  \<^verbatim>\<open>readResponse\<close> gives a nil response with that error, and no error gives the
  transport's response as it is.
\<close>

theorem readResponse_order:
  "(rawOutput b \<and> respErr = None \<longrightarrow> readResponse b resp respErr w = (Returns None, w))
   \<and> (respErr = Some e \<longrightarrow> readResponse b resp respErr w = (Returns (Some e), w))
   \<and> (\<not> rawOutput b \<and> respErr = None
        \<and> (responseOutput b = None \<or> resp = None
            \<or> (\<exists>r. resp = Some r \<and> (resp_Body r = None \<or> resp_ContentLength r = 0))) \<longrightarrow>
      readResponse b resp respErr w = (Returns None, w))
   \<and> (\<not> rawOutput b \<and> respErr = None \<and> responseOutput b = Some out \<and> resp = Some r
        \<and> resp_Body r = Some body \<and> resp_ContentLength r \<noteq> 0
        \<and> responseDecoder b = Some dec \<longrightarrow>
      readResponse b resp respErr w =
        (case call (dec body out) (log EvDecode w) of (decErr, w1) \<Rightarrow> (Returns decErr, w1))
      \<and> fst (readResponse b resp respErr w) = Returns (fst (dec body out (hp w)))
      \<and> trace (snd (readResponse b resp respErr w)) = trace w @ [EvDecode])
   \<and> (bodyMiddleware_setRequestBody b req wa = (Returns (Some c, None), req1, w1)
        \<and> call (next req1) (log EvTransport w1) = ((resp, respErr), w2)
        \<and> readResponse b resp respErr (run_cleanup c (log EvCleanup w2)) =
            (Returns (Some e), w3) \<longrightarrow>
      RoundTrip b req next wa = (Returns (None, Some e), req1, w3))
   \<and> (bodyMiddleware_setRequestBody b req wa = (Returns (Some c, None), req1, w1)
        \<and> call (next req1) (log EvTransport w1) = ((resp, respErr), w2)
        \<and> readResponse b resp respErr (run_cleanup c (log EvCleanup w2)) = (Returns None, w3) \<longrightarrow>
      RoundTrip b req next wa = (Returns (resp, None), req1, w3))"
  by (auto simp: readResponse_def RoundTrip_def call_def log_def split: option.splits prod.splits)

theorem readResponse_order_witness:
  "readResponse (mw0\<lparr>rawOutput := True, responseOutput := Some (),
                      responseDecoder := Some dec_fail\<rparr>) (Some resp2) None world0 =
     (Returns None, world0)
   \<and> readResponse (mw0\<lparr>responseOutput := Some (), responseDecoder := Some dec_fail\<rparr>)
        (Some resp2) (Some (External 3)) world0 =
     (Returns (Some (External 3)), world0)
   \<and> readResponse (mw0\<lparr>responseOutput := Some (), responseDecoder := Some dec_fail\<rparr>)
        (Some (resp2\<lparr>resp_ContentLength := 0\<rparr>)) None world0 =
     (Returns None, world0)
   \<and> fst (readResponse (mw0\<lparr>responseOutput := Some (), responseDecoder := Some dec_fail\<rparr>)
        (Some resp2) None world0) =
     Returns (Some (External 2))
   \<and> fst (RoundTrip (mw0\<lparr>responseOutput := Some (), responseDecoder := Some dec_fail\<rparr>)
        request0 next_resp2 world0) =
     Returns (None, Some (External 2))
   \<and> fst (RoundTrip (mw0\<lparr>responseOutput := Some (), responseDecoder := Some dec_ok\<rparr>)
        request0 next_resp2 world0) =
     Returns (Some resp2, None)"
proof -
  let ?raw = "mw0\<lparr>rawOutput := True, responseOutput := Some (),
                  responseDecoder := Some dec_fail\<rparr>"
  let ?bf = "mw0\<lparr>responseOutput := Some (), responseDecoder := Some dec_fail\<rparr>"
  let ?bo = "mw0\<lparr>responseOutput := Some (), responseDecoder := Some dec_ok\<rparr>"
  let ?req1 = "request0\<lparr>ContentLength := 0, Body := Some NoBody, GetBody := None\<rparr>"
  let ?w2 = "log EvTransport world0"
  have a: "readResponse ?raw (Some resp2) None world0 = (Returns None, world0)"
    using readResponse_order
      [where b = ?raw and respErr = None and resp = "Some resp2" and w = world0]
    by (simp add: mw0_def)
  have b: "readResponse ?bf (Some resp2) (Some (External 3)) world0 =
             (Returns (Some (External 3)), world0)"
    using readResponse_order
      [where b = ?bf and respErr = "Some (External 3)" and e = "External 3"
         and resp = "Some resp2" and w = world0]
    by simp
  have c: "readResponse ?bf (Some (resp2\<lparr>resp_ContentLength := 0\<rparr>)) None world0 =
             (Returns None, world0)"
    using readResponse_order
      [where b = ?bf and respErr = None and resp = "Some (resp2\<lparr>resp_ContentLength := 0\<rparr>)"
         and w = world0]
    by (simp add: mw0_def)
  have d: "fst (readResponse ?bf (Some resp2) None world0) = Returns (Some (External 2))"
    using readResponse_order
      [where b = ?bf and respErr = None and resp = "Some resp2" and r = resp2
         and body = "NopCloser 0" and out = "()" and dec = dec_fail and w = world0]
    by (simp add: mw0_def resp2_def dec_fail_def call_def split: prod.splits)
  have sf: "bodyMiddleware_setRequestBody ?bf request0 world0 =
              (Returns (Some CleanupNoop, None), ?req1, world0)"
    by (simp add: bodyMiddleware_setRequestBody_def mw0_def setRequestBody_Empty)
  have so: "bodyMiddleware_setRequestBody ?bo request0 world0 =
              (Returns (Some CleanupNoop, None), ?req1, world0)"
    by (simp add: bodyMiddleware_setRequestBody_def mw0_def setRequestBody_Empty)
  have n: "call (next_resp2 ?req1) ?w2 = ((Some resp2, None), ?w2)"
    by (simp add: call_def next_resp2_def)
  obtain x w3 where rf:
    "readResponse ?bf (Some resp2) None (run_cleanup CleanupNoop (log EvCleanup ?w2)) = (x, w3)"
    by (metis prod.exhaust)
  have "fst (readResponse ?bf (Some resp2) None (run_cleanup CleanupNoop (log EvCleanup ?w2))) =
          Returns (Some (External 2))"
    by (simp add: readResponse_def mw0_def resp2_def dec_fail_def call_def split: prod.splits)
  with rf have x: "x = Returns (Some (External 2))"
    by simp
  have e: "fst (RoundTrip ?bf request0 next_resp2 world0) = Returns (None, Some (External 2))"
    using readResponse_order
      [where b = ?bf and req = request0 and wa = world0 and c = CleanupNoop and ?req1.0 = ?req1
         and ?w1.0 = world0 and ?next = next_resp2 and resp = "Some resp2" and respErr = None
         and ?w2.0 = ?w2 and e = "External 2" and ?w3.0 = w3]
      sf n rf x
    by simp
  obtain y w4 where ro:
    "readResponse ?bo (Some resp2) None (run_cleanup CleanupNoop (log EvCleanup ?w2)) = (y, w4)"
    by (metis prod.exhaust)
  have "fst (readResponse ?bo (Some resp2) None (run_cleanup CleanupNoop (log EvCleanup ?w2))) =
          Returns None"
    by (simp add: readResponse_def mw0_def resp2_def dec_ok_def call_def split: prod.splits)
  with ro have y: "y = Returns None"
    by simp
  have f: "fst (RoundTrip ?bo request0 next_resp2 world0) = Returns (Some resp2, None)"
    using readResponse_order
      [where b = ?bo and req = request0 and wa = world0 and c = CleanupNoop and ?req1.0 = ?req1
         and ?w1.0 = world0 and ?next = next_resp2 and resp = "Some resp2" and respErr = None
         and ?w2.0 = ?w2 and ?w3.0 = w4]
      so n ro y
    by simp
  from a b c d e f show ?thesis
    by (intro conjI)
qed

section \<open>C4: when \<^verbatim>\<open>RequestBodyInMemory\<close> takes its snapshot\<close>

text \<open>
  A buffer holds \<^verbatim>\<open>"hello"\<close> when \<^verbatim>\<open>RequestBodyInMemory\<close> is called on it: its length is 5
  then. The caller writes \<^verbatim>\<open>"hi"\<close> to the buffer afterwards, and only then is the body set
  on a request: the request reports 7 bytes and its stream delivers \<^verbatim>\<open>"hellohi"\<close>. The body
  value is the same whether it is built before or after the write, since it holds the
  pointer only.
\<close>

theorem InMemory_snapshot_counterexample:
  "contentLengthInMemory (Some 0) heap_buf = 5
   \<and> fst (setRequestBody (RequestBodyInMemory (Some 0)) request0
            (world_buf\<lparr>hp := buffer_Write 0 hi heap_buf\<rparr>)) = Returns None
   \<and> ContentLength (fst (snd (setRequestBody (RequestBodyInMemory (Some 0)) request0
            (world_buf\<lparr>hp := buffer_Write 0 hi heap_buf\<rparr>)))) = 7
   \<and> Body (fst (snd (setRequestBody (RequestBodyInMemory (Some 0)) request0
            (world_buf\<lparr>hp := buffer_Write 0 hi heap_buf\<rparr>)))) = Some (NopCloser 1)
   \<and> fst (io_ReadAll (NopCloser 1)
            (hp (snd (snd (setRequestBody (RequestBodyInMemory (Some 0)) request0
                             (world_buf\<lparr>hp := buffer_Write 0 hi heap_buf\<rparr>)))))) = hello @ hi"
  by (simp add: setRequestBody_InMemory contentLengthInMemory_def buffer_Write_def
        heap_buf_def world_buf_def hello_def hi_def)

text \<open>
  C4 (as amended). \<^verbatim>\<open>RequestBodyInMemory\<close> keeps the pointer to its input; the length and
  the snapshot (a copy of the value the pointer refers to, sharing its backing bytes) are
  taken each time \<^verbatim>\<open>setRequestBody\<close> sets the body on a request, from the value the input
  has at that moment, and not when the \<^verbatim>\<open>RequestBody\<close> is constructed. From then on, whatever
  happens to the input variable itself and to the rest of its backing array, every replay
  delivers the bytes that were unread at that moment, as long as the backing bytes of that
  unread part are not overwritten.
\<close>

theorem InMemory_snapshot_at_materialisation:
  "setRequestBody (RequestBodyInMemory (Some p)) req w =
     (Returns None,
      req\<lparr>ContentLength := Len (objs (hp w) p),
          Body := Some (NopCloser (next_addr (hp w))),
          GetBody := Some (getBody_snapshot (objs (hp w) p))\<rparr>,
      w\<lparr>hp := snd (alloc_obj (objs (hp w) p) (hp w))\<rparr>)
   \<and> (\<forall>h. unread (arrays h) (objs (hp w) p) = unread (arrays (hp w)) (objs (hp w) p) \<longrightarrow>
          fst (replay_reads (getBody_snapshot (objs (hp w) p)) n h) =
            replicate n (Some (unread (arrays (hp w)) (objs (hp w) p))))"
proof (intro conjI allI impI)
  show "setRequestBody (RequestBodyInMemory (Some p)) req w =
     (Returns None,
      req\<lparr>ContentLength := Len (objs (hp w) p),
          Body := Some (NopCloser (next_addr (hp w))),
          GetBody := Some (getBody_snapshot (objs (hp w) p))\<rparr>,
      w\<lparr>hp := snd (alloc_obj (objs (hp w) p) (hp w))\<rparr>)"
    by (simp add: setRequestBody_InMemory alloc_obj_def)
next
  fix h :: heap
  assume "unread (arrays h) (objs (hp w) p) = unread (arrays (hp w)) (objs (hp w) p)"
  then show "fst (replay_reads (getBody_snapshot (objs (hp w) p)) n h) =
            replicate n (Some (unread (arrays (hp w)) (objs (hp w) p)))"
    by (simp add: replay_reads_snapshot)
qed

text \<open>
  The body is set while the buffer holds \<^verbatim>\<open>"hello"\<close>. In one run the owner then writes
  \<^verbatim>\<open>"hi"\<close> to the buffer, so that the backing array holds \<^verbatim>\<open>"hellohi"\<close>; in another the
  owner reads the buffer to its end. In both, two replays still deliver \<^verbatim>\<open>"hello"\<close>.
\<close>

theorem InMemory_snapshot_at_materialisation_witness:
  "arrays (buffer_Write 0 hi
      (hp (snd (snd (setRequestBody (RequestBodyInMemory (Some 0)) request0 world_buf))))) 0 =
     hello @ hi
   \<and> fst (replay_reads (getBody_snapshot (BytesBuffer (Slice 0 0 5) 0)) 2
        (buffer_Write 0 hi
           (hp (snd (snd (setRequestBody (RequestBodyInMemory (Some 0)) request0 world_buf)))))) =
     [Some hello, Some hello]
   \<and> fst (replay_reads (getBody_snapshot (BytesBuffer (Slice 0 0 5) 0)) 2
          (heap_buf\<lparr>objs := (objs heap_buf)(0 := drained (objs heap_buf 0))\<rparr>)) =
     [Some hello, Some hello]"
proof -
  let ?h1 = "buffer_Write 0 hi
      (hp (snd (snd (setRequestBody (RequestBodyInMemory (Some 0)) request0 world_buf))))"
  let ?h2 = "heap_buf\<lparr>objs := (objs heap_buf)(0 := drained (objs heap_buf 0))\<rparr>"
  have o: "objs (hp world_buf) 0 = BytesBuffer (Slice 0 0 5) 0"
    by (simp add: world_buf_def heap_buf_def)
  have u: "unread (arrays (hp world_buf)) (BytesBuffer (Slice 0 0 5) 0) = hello"
    by (simp add: world_buf_def heap_buf_def hello_def)
  have a1: "arrays ?h1 0 = hello @ hi"
    by (simp add: setRequestBody_InMemory buffer_Write_def world_buf_def heap_buf_def
          hello_def hi_def)
  have k1: "unread (arrays ?h1) (objs (hp world_buf) 0) =
              unread (arrays (hp world_buf)) (objs (hp world_buf) 0)"
    unfolding o u by (simp add: a1) (simp add: hello_def)
  have k2: "unread (arrays ?h2) (objs (hp world_buf) 0) =
              unread (arrays (hp world_buf)) (objs (hp world_buf) 0)"
    by (simp add: world_buf_def heap_buf_def)
  have r1: "fst (replay_reads (getBody_snapshot (BytesBuffer (Slice 0 0 5) 0)) 2 ?h1) =
              [Some hello, Some hello]"
    using InMemory_snapshot_at_materialisation
         [where p = 0 and w = world_buf and req = request0 and n = 2,
          THEN conjunct2, THEN spec, THEN mp, OF k1]
    unfolding o u by (simp add: numeral_2_eq_2)
  have r2: "fst (replay_reads (getBody_snapshot (BytesBuffer (Slice 0 0 5) 0)) 2 ?h2) =
              [Some hello, Some hello]"
    using InMemory_snapshot_at_materialisation
         [where p = 0 and w = world_buf and req = request0 and n = 2,
          THEN conjunct2, THEN spec, THEN mp, OF k2]
    unfolding o u by (simp add: numeral_2_eq_2)
  from a1 r1 r2 show ?thesis
    by (intro conjI)
qed

section \<open>C6: nil factories\<close>

text \<open>
  C6. The claim is that for a nil factory, also a nil value of one of the three function
  types, setting the body succeeds and gives the empty body. The type switch is on
  \<^verbatim>\<open>any(input)\<close>, and a nil function value of a function type is not the nil interface: it
  takes the branch of its function type and is called there. For each of the three types
  and both constructors, \<^verbatim>\<open>setRequestBody\<close> panics and the request is left as it was.
  The \<^verbatim>\<open>case nil\<close> branch does give the empty body, but only for the nil interface, which
  a type parameter constrained to the three function types never yields.
\<close>

theorem nil_factory_panics:
  "setRequestBody (RequestBodyStreamOnce NilInterface) req w =
     (Returns None, req\<lparr>ContentLength := 0, Body := Some NoBody, GetBody := None\<rparr>, w)
   \<and> setRequestBody (RequestBodyStreamWithReplay NilInterface) req w =
     (Returns None, req\<lparr>ContentLength := 0, Body := Some NoBody, GetBody := None\<rparr>, w)
   \<and> setRequestBody (RequestBodyStreamOnce (Func0 None)) req w = (Panics, req, w)
   \<and> setRequestBody (RequestBodyStreamOnce (Func1 None)) req w = (Panics, req, w)
   \<and> setRequestBody (RequestBodyStreamOnce (Func2 None)) req w = (Panics, req, w)
   \<and> setRequestBody (RequestBodyStreamWithReplay (Func0 None)) req w = (Panics, req, w)
   \<and> setRequestBody (RequestBodyStreamWithReplay (Func1 None)) req w = (Panics, req, w)
   \<and> setRequestBody (RequestBodyStreamWithReplay (Func2 None)) req w = (Panics, req, w)"
  by (simp add: RequestBodyStreamOnce_def RequestBodyStreamWithReplay_def
        requestBodyFunc_setRequestBody_def)

section \<open>C7: length, content and replay of in-memory bodies\<close>

text \<open>
  C7. For an in-memory payload (\<^verbatim>\<open>bytes.Buffer\<close>, \<^verbatim>\<open>bytes.Reader\<close> or \<^verbatim>\<open>strings.Reader\<close>)
  holding \<open>N\<close> unread bytes when the body is set on a request, the request gets
  \<^verbatim>\<open>ContentLength\<close> \<open>N\<close>, its stream delivers exactly those \<open>N\<close> bytes, and after it every
  call of \<^verbatim>\<open>GetBody\<close>, however many there are, delivers the same bytes again.
\<close>

theorem InMemory_length_and_replay:
  assumes "wf_inmem (arrays (hp w)) (objs (hp w) p)"
  shows "\<exists>req' w' s gb.
           setRequestBody (RequestBodyInMemory (Some p)) req w = (Returns None, req', w')
           \<and> ContentLength req' = int (length (unread (arrays (hp w)) (objs (hp w) p)))
           \<and> Body req' = Some s \<and> GetBody req' = Some gb
           \<and> fst (io_ReadAll s (hp w')) = unread (arrays (hp w)) (objs (hp w) p)
           \<and> (\<forall>n. fst (replay_reads gb n (snd (io_ReadAll s (hp w')))) =
                    replicate n (Some (unread (arrays (hp w)) (objs (hp w) p))))"
  using Len_unread[OF assms]
  by (simp add: setRequestBody_InMemory replay_reads_snapshot del: io_ReadAll.simps) simp

theorem InMemory_length_and_replay_witness:
  "wf_inmem (arrays (hp world_buf)) (objs (hp world_buf) 0)
   \<and> (\<exists>req' w' s gb.
         setRequestBody (RequestBodyInMemory (Some 0)) request0 world_buf = (Returns None, req', w')
         \<and> ContentLength req' = 5
         \<and> Body req' = Some s \<and> GetBody req' = Some gb
         \<and> fst (io_ReadAll s (hp w')) = hello
         \<and> (\<forall>n. fst (replay_reads gb n (snd (io_ReadAll s (hp w')))) = replicate n (Some hello)))"
proof -
  have wf: "wf_inmem (arrays (hp world_buf)) (objs (hp world_buf) 0)"
    by (simp add: world_buf_def heap_buf_def hello_def)
  have u: "unread (arrays (hp world_buf)) (objs (hp world_buf) 0) = hello"
    by (simp add: world_buf_def heap_buf_def hello_def)
  have l: "int (length hello) = 5"
    by (simp add: hello_def)
  from InMemory_length_and_replay[OF wf, of request0] wf
  show ?thesis
    unfolding u l by blast
qed

section \<open>C8: length, content and replay of encoder-produced bodies\<close>

text \<open>
  A buffer that still holds \<^verbatim>\<open>"hello"\<close> is passed to \<^verbatim>\<open>RequestBodyEncoderObjectBuffer\<close>
  and the encoder writes the two bytes \<^verbatim>\<open>"hi"\<close>: the request reports 7 bytes and its stream
  delivers \<^verbatim>\<open>"hellohi"\<close>.
\<close>

theorem encoder_buffer_counterexample:
  "Encode enc_ok (ObjectAny ()) = (hi, None)
   \<and> length hi = 2
   \<and> fst (setRequestBody (RequestBodyEncoderObjectBuffer (ObjectAny ()) enc_ok 0)
            request0 world_buf) = Returns None
   \<and> ContentLength (fst (snd (setRequestBody
        (RequestBodyEncoderObjectBuffer (ObjectAny ()) enc_ok 0) request0 world_buf))) = 7
   \<and> Body (fst (snd (setRequestBody
        (RequestBodyEncoderObjectBuffer (ObjectAny ()) enc_ok 0) request0 world_buf))) =
       Some (NopCloser 1)
   \<and> fst (io_ReadAll (NopCloser 1)
        (hp (snd (snd (setRequestBody
           (RequestBodyEncoderObjectBuffer (ObjectAny ()) enc_ok 0) request0 world_buf))))) =
       hello @ hi"
proof -
  have e: "Encode enc_ok (ObjectAny ()) = (hi, None)"
    by (simp add: enc_ok_def)
  have o: "objs (hp world_buf) 0 = BytesBuffer (Slice 0 0 5) 0"
    by (simp add: world_buf_def heap_buf_def)
  show ?thesis
    unfolding setRequestBody_EncoderObjectBuffer[OF e o]
    by (simp add: e) (simp add: world_buf_def heap_buf_def hello_def hi_def)
qed

text \<open>
  C8 (as amended). For every value the encoder accepts, the body built by
  \<^verbatim>\<open>RequestBodyEncoderObject\<close> reports a \<^verbatim>\<open>ContentLength\<close> equal to the number of encoded
  bytes, its stream delivers exactly those bytes, and every later call of \<^verbatim>\<open>GetBody\<close>
  delivers them again; the encoder is called once, when the body is set on the request, and
  the replay function refers to the bytes only. The body built by
  \<^verbatim>\<open>RequestBodyEncoderObjectBuffer\<close> does the same for the whole unread contents of the
  buffer after encoding: the bytes the buffer held before, followed by the encoded bytes;
  these are exactly the encoded bytes when the buffer passed in is empty.
\<close>

theorem encoder_bodies_length_and_replay:
  "(Marshal enc v = Inr bs \<longrightarrow>
      (\<exists>req' w' s raw.
         setRequestBody (RequestBodyEncoderObject v enc) req w = (Returns None, req', w')
         \<and> ContentLength req' = int (length bs)
         \<and> Body req' = Some s \<and> GetBody req' = Some (getBody_raw raw)
         \<and> trace w' = trace w @ [EvMarshal]
         \<and> fst (io_ReadAll s (hp w')) = bs
         \<and> (\<forall>n. fst (replay_reads (getBody_raw raw) n (snd (io_ReadAll s (hp w')))) =
                  replicate n (Some bs))))
   \<and> (Encode enc v = (written, None) \<and> objs (hp w) buffer = BytesBuffer sl off
        \<and> wf_inmem (arrays (hp w)) (BytesBuffer sl off) \<longrightarrow>
      (\<exists>req' w' s raw.
         setRequestBody (RequestBodyEncoderObjectBuffer v enc buffer) req w =
           (Returns None, req', w')
         \<and> ContentLength req' =
             int (length (unread (arrays (hp w)) (BytesBuffer sl off) @ written))
         \<and> Body req' = Some s \<and> GetBody req' = Some (getBody_raw raw)
         \<and> trace w' = trace w @ [EvEncode buffer]
         \<and> fst (io_ReadAll s (hp w')) = unread (arrays (hp w)) (BytesBuffer sl off) @ written
         \<and> (\<forall>n. fst (replay_reads (getBody_raw raw) n (snd (io_ReadAll s (hp w')))) =
                  replicate n (Some (unread (arrays (hp w)) (BytesBuffer sl off) @ written)))))"
proof (intro conjI impI)
  assume m: "Marshal enc v = Inr bs"
  let ?a = "next_addr (hp w)"
  let ?raw = "Slice ?a 0 (length bs)"
  let ?s = "NopCloser (Suc ?a)"
  let ?req = "req\<lparr>ContentLength := int (length bs), Body := Some ?s,
                  GetBody := Some (getBody_raw ?raw)\<rparr>"
  let ?w = "w\<lparr>hp := (hp w)\<lparr>arrays := (arrays (hp w))(?a := bs),
                      objs := (objs (hp w))(Suc ?a := BytesReader ?raw 0),
                      next_addr := Suc (Suc ?a)\<rparr>,
         trace := trace w @ [EvMarshal]\<rparr>"
  have "setRequestBody (RequestBodyEncoderObject v enc) req w = (Returns None, ?req, ?w)
         \<and> ContentLength ?req = int (length bs)
         \<and> Body ?req = Some ?s \<and> GetBody ?req = Some (getBody_raw ?raw)
         \<and> trace ?w = trace w @ [EvMarshal]
         \<and> fst (io_ReadAll ?s (hp ?w)) = bs
         \<and> (\<forall>n. fst (replay_reads (getBody_raw ?raw) n (snd (io_ReadAll ?s (hp ?w)))) =
                  replicate n (Some bs))"
    unfolding setRequestBody_EncoderObject[OF m]
    by (simp add: getBody_raw_snapshot replay_reads_snapshot)
  then show "\<exists>req' w' s raw.
         setRequestBody (RequestBodyEncoderObject v enc) req w = (Returns None, req', w')
         \<and> ContentLength req' = int (length bs)
         \<and> Body req' = Some s \<and> GetBody req' = Some (getBody_raw raw)
         \<and> trace w' = trace w @ [EvMarshal]
         \<and> fst (io_ReadAll s (hp w')) = bs
         \<and> (\<forall>n. fst (replay_reads (getBody_raw raw) n (snd (io_ReadAll s (hp w')))) =
                  replicate n (Some bs))"
    by (intro exI)
next
  assume "Encode enc v = (written, None) \<and> objs (hp w) buffer = BytesBuffer sl off
        \<and> wf_inmem (arrays (hp w)) (BytesBuffer sl off)"
  then have e: "Encode enc v = (written, None)"
    and o: "objs (hp w) buffer = BytesBuffer sl off"
    and wf: "wf_inmem (arrays (hp w)) (BytesBuffer sl off)"
    by simp_all
  obtain a s k where sl: "sl = Slice a s k"
    by (cases sl) auto
  from wf sl have b: "s + k \<le> length (arrays (hp w) a)" "off \<le> k"
    by simp_all
  note u = unread_after_Write
             [OF b, of written "drop (s + k + length written) (arrays (hp w) a)"]
  let ?pre = "unread (arrays (hp w)) (BytesBuffer sl off)"
  let ?raw = "Slice a (s + off) (k + length written - off)"
  let ?s = "NopCloser (next_addr (hp w))"
  let ?req = "req\<lparr>ContentLength := int (k + length written - off), Body := Some ?s,
                  GetBody := Some (getBody_raw ?raw)\<rparr>"
  let ?w = "w\<lparr>hp := (hp w)\<lparr>objs := (objs (hp w))
                         (buffer := BytesBuffer (Slice a s (k + length written)) off,
                          next_addr (hp w) := BytesReader ?raw 0),
                      arrays := (arrays (hp w))(a := take (s + k) (arrays (hp w) a) @ written
                                    @ drop (s + k + length written) (arrays (hp w) a)),
                      next_addr := Suc (next_addr (hp w))\<rparr>,
         trace := trace w @ [EvEncode buffer]\<rparr>"
  have "setRequestBody (RequestBodyEncoderObjectBuffer v enc buffer) req w =
           (Returns None, ?req, ?w)
         \<and> ContentLength ?req = int (length (?pre @ written))
         \<and> Body ?req = Some ?s \<and> GetBody ?req = Some (getBody_raw ?raw)
         \<and> trace ?w = trace w @ [EvEncode buffer]
         \<and> fst (io_ReadAll ?s (hp ?w)) = ?pre @ written
         \<and> (\<forall>n. fst (replay_reads (getBody_raw ?raw) n (snd (io_ReadAll ?s (hp ?w)))) =
                  replicate n (Some (?pre @ written)))"
    unfolding setRequestBody_EncoderObjectBuffer[OF e o[unfolded sl]] sl
    using b u by (simp add: getBody_raw_snapshot replay_reads_snapshot)
  then show "\<exists>req' w' s raw.
         setRequestBody (RequestBodyEncoderObjectBuffer v enc buffer) req w =
           (Returns None, req', w')
         \<and> ContentLength req' =
             int (length (unread (arrays (hp w)) (BytesBuffer sl off) @ written))
         \<and> Body req' = Some s \<and> GetBody req' = Some (getBody_raw raw)
         \<and> trace w' = trace w @ [EvEncode buffer]
         \<and> fst (io_ReadAll s (hp w')) = unread (arrays (hp w)) (BytesBuffer sl off) @ written
         \<and> (\<forall>n. fst (replay_reads (getBody_raw raw) n (snd (io_ReadAll s (hp w')))) =
                  replicate n (Some (unread (arrays (hp w)) (BytesBuffer sl off) @ written)))"
    by (intro exI)
qed

text \<open>
  With the encoder that produces \<^verbatim>\<open>"hi"\<close>: the body of \<^verbatim>\<open>RequestBodyEncoderObject\<close>, and
  the body of \<^verbatim>\<open>RequestBodyEncoderObjectBuffer\<close> over an empty buffer from the pool, report 2
  bytes and deliver \<^verbatim>\<open>"hi"\<close>, on every replay as well.
\<close>

theorem encoder_bodies_length_and_replay_witness:
  "(\<exists>req' w' s raw.
      setRequestBody (RequestBodyEncoderObject (ObjectAny ()) enc_ok) request0 world0 =
        (Returns None, req', w')
      \<and> ContentLength req' = 2
      \<and> Body req' = Some s \<and> GetBody req' = Some (getBody_raw raw)
      \<and> trace w' = [EvMarshal]
      \<and> fst (io_ReadAll s (hp w')) = hi
      \<and> (\<forall>n. fst (replay_reads (getBody_raw raw) n (snd (io_ReadAll s (hp w')))) =
               replicate n (Some hi)))
   \<and> (\<exists>req' w' s raw.
      setRequestBody (RequestBodyEncoderObjectBuffer (ObjectAny ()) enc_ok 1) request0
        world_pooled = (Returns None, req', w')
      \<and> ContentLength req' = 2
      \<and> Body req' = Some s \<and> GetBody req' = Some (getBody_raw raw)
      \<and> trace w' = [EvEncode 1]
      \<and> fst (io_ReadAll s (hp w')) = hi
      \<and> (\<forall>n. fst (replay_reads (getBody_raw raw) n (snd (io_ReadAll s (hp w')))) =
               replicate n (Some hi)))"
proof -
  have m: "Marshal enc_ok (ObjectAny ()) = Inr hi"
    by (simp add: enc_ok_def)
  have e: "Encode enc_ok (ObjectAny ()) = (hi, None)
           \<and> objs (hp world_pooled) 1 = BytesBuffer (Slice 0 0 0) 0
           \<and> wf_inmem (arrays (hp world_pooled)) (BytesBuffer (Slice 0 0 0) 0)"
    by (simp add: enc_ok_def world_pooled_def pool0_def heap0_def alloc_array_def alloc_obj_def)
  have l: "int (length hi) = 2"
    by (simp add: hi_def)
  have t: "trace world0 = []" "trace world_pooled = []"
    by (simp_all add: world0_def world_pooled_def)
  have u: "unread (arrays (hp world_pooled)) (BytesBuffer (Slice 0 0 0) 0) = []"
    by simp
  from encoder_bodies_length_and_replay
         [where enc = enc_ok and v = "ObjectAny ()" and bs = hi and req = request0
            and w = world0, THEN conjunct1, THEN mp, OF m]
  have a: "\<exists>req' w' s raw.
      setRequestBody (RequestBodyEncoderObject (ObjectAny ()) enc_ok) request0 world0 =
        (Returns None, req', w')
      \<and> ContentLength req' = 2
      \<and> Body req' = Some s \<and> GetBody req' = Some (getBody_raw raw)
      \<and> trace w' = [EvMarshal]
      \<and> fst (io_ReadAll s (hp w')) = hi
      \<and> (\<forall>n. fst (replay_reads (getBody_raw raw) n (snd (io_ReadAll s (hp w')))) =
               replicate n (Some hi))"
    unfolding l t by simp
  from encoder_bodies_length_and_replay
         [where enc = enc_ok and v = "ObjectAny ()" and written = hi and req = request0
            and w = world_pooled and buffer = 1 and sl = "Slice 0 0 0" and off = 0,
          THEN conjunct2, THEN mp, OF e]
  have b: "\<exists>req' w' s raw.
      setRequestBody (RequestBodyEncoderObjectBuffer (ObjectAny ()) enc_ok 1) request0
        world_pooled = (Returns None, req', w')
      \<and> ContentLength req' = 2
      \<and> Body req' = Some s \<and> GetBody req' = Some (getBody_raw raw)
      \<and> trace w' = [EvEncode 1]
      \<and> fst (io_ReadAll s (hp w')) = hi
      \<and> (\<forall>n. fst (replay_reads (getBody_raw raw) n (snd (io_ReadAll s (hp w')))) =
               replicate n (Some hi))"
    unfolding u t by (simp add: l)
  from a b show ?thesis
    by (intro conjI)
qed

section \<open>C9: normalisation of nil streams\<close>

text \<open>
  C9. Whenever the body function returns a nil body and a nil error, the request gets
  \<^verbatim>\<open>Body = http.NoBody\<close>, \<^verbatim>\<open>ContentLength = 0\<close> and \<^verbatim>\<open>GetBody = nil\<close>, whatever length and
  replay function were returned; whenever it returns an error, that error is returned and the
  request is left as it was; and after a successful \<^verbatim>\<open>setRequestBody\<close> the request's
  \<^verbatim>\<open>Body\<close> is never nil.
\<close>

theorem setRequestBody_normalises_nil_stream:
  "(f w = (Returns (n, None, gb, None), w1) \<longrightarrow>
      requestBodyFunc_setRequestBody f req w =
        (Returns None, req\<lparr>ContentLength := 0, Body := Some NoBody, GetBody := None\<rparr>, w1))
   \<and> (f w = (Returns (n, body, gb, Some e), w1) \<longrightarrow>
      requestBodyFunc_setRequestBody f req w = (Returns (Some e), req, w1))
   \<and> (requestBodyFunc_setRequestBody f req w = (Returns None, req', w') \<longrightarrow> Body req' \<noteq> None)"
  by (auto simp: requestBodyFunc_setRequestBody_def split: prod.splits exec.splits if_splits)

theorem setRequestBody_normalises_nil_stream_witness:
  "requestBodyFunc_setRequestBody (\<lambda>w. (Returns (5, None, None, None), w)) request0 world0 =
     (Returns None, request0\<lparr>ContentLength := 0, Body := Some NoBody, GetBody := None\<rparr>, world0)
   \<and> requestBodyFunc_setRequestBody
        (\<lambda>w. (Returns (5, Some NoBody, None, Some (External 1)), w)) request0 world0 =
     (Returns (Some (External 1)), request0, world0)
   \<and> Body (request0\<lparr>ContentLength := 0, Body := Some NoBody, GetBody := None\<rparr>) \<noteq> None"
proof -
  let ?f = "\<lambda>w::world. (Returns (5::int, None::stream option, None::getBody option,
                                  None::error option), w)"
  let ?g = "\<lambda>w::world. (Returns (5::int, Some NoBody, None::getBody option,
                                  Some (External 1)), w)"
  let ?r = "request0\<lparr>ContentLength := 0, Body := Some NoBody, GetBody := None\<rparr>"
  have a: "requestBodyFunc_setRequestBody ?f request0 world0 = (Returns None, ?r, world0)"
    using setRequestBody_normalises_nil_stream
      [where f = ?f and w = world0 and n = 5 and gb = None and ?w1.0 = world0 and req = request0]
    by simp
  have b: "requestBodyFunc_setRequestBody ?g request0 world0 =
             (Returns (Some (External 1)), request0, world0)"
    using setRequestBody_normalises_nil_stream
      [where f = ?g and w = world0 and n = 5 and gb = None and ?w1.0 = world0
         and req = request0 and body = "Some NoBody" and e = "External 1"]
    by simp
  have c: "Body ?r \<noteq> None"
    using a setRequestBody_normalises_nil_stream
      [where f = ?f and w = world0 and req = request0 and req' = ?r and w' = world0]
    by blast
  from a b c show ?thesis
    by (intro conjI)
qed

section \<open>C10: the retry-safety marker\<close>

text \<open>
  C10. \<^verbatim>\<open>bodyMiddleware.noRetriesRequestBody()\<close> is true exactly when the request encoder is
  nil, the request input is not nil and the input's dynamic type is
  \<^verbatim>\<open>noRetriesRequestBody\<close>, the wrapper that \<^verbatim>\<open>RequestBodyStreamOnce\<close> (and no other
  constructor) produces. So it is false with an encoder configured, for a nil input, and for
  empty, in-memory and stream-with-replay bodies, and for a stream-once body it is true
  exactly when no encoder is configured. Setting a stream-once body on a request leaves
  \<^verbatim>\<open>GetBody\<close> nil when it succeeds and leaves the request as it was when it does not.
\<close>

theorem noRetriesRequestBody_iff:
  "(bodyMiddleware_noRetriesRequestBody b \<longleftrightarrow>
      requestEncoder b = None \<and> requestInput b \<noteq> NilAny
      \<and> (\<exists>f. requestInput b = RequestBodyAny (NoRetriesRequestBody f)))
   \<and> (requestEncoder b \<noteq> None \<longrightarrow> \<not> bodyMiddleware_noRetriesRequestBody b)
   \<and> (requestInput b = NilAny \<longrightarrow> \<not> bodyMiddleware_noRetriesRequestBody b)
   \<and> (requestInput b = RequestBodyAny RequestBodyEmpty \<longrightarrow>
        \<not> bodyMiddleware_noRetriesRequestBody b)
   \<and> (requestInput b = RequestBodyAny (RequestBodyInMemory p) \<longrightarrow>
        \<not> bodyMiddleware_noRetriesRequestBody b)
   \<and> (requestInput b = RequestBodyAny (RequestBodyStreamWithReplay i) \<longrightarrow>
        \<not> bodyMiddleware_noRetriesRequestBody b)
   \<and> (requestInput b = RequestBodyAny (RequestBodyStreamOnce i) \<longrightarrow>
        (bodyMiddleware_noRetriesRequestBody b \<longleftrightarrow> requestEncoder b = None))
   \<and> (setRequestBody (RequestBodyStreamOnce i) req w = (r, req', w') \<longrightarrow>
        (r = Returns None \<longrightarrow> GetBody req' = None) \<and> (r \<noteq> Returns None \<longrightarrow> req' = req))"
proof -
  have iff: "bodyMiddleware_noRetriesRequestBody b \<longleftrightarrow>
      requestEncoder b = None \<and> requestInput b \<noteq> NilAny
      \<and> (\<exists>f. requestInput b = RequestBodyAny (NoRetriesRequestBody f))"
    by (auto simp: bodyMiddleware_noRetriesRequestBody_def
             split: go_any.splits request_body.splits)
  have once: "setRequestBody (RequestBodyStreamOnce i) req w = (r, req', w') \<longrightarrow>
        (r = Returns None \<longrightarrow> GetBody req' = None) \<and> (r \<noteq> Returns None \<longrightarrow> req' = req)"
    using setRequestBody_streamOnce by blast
  show ?thesis
    unfolding iff using once
    by (simp add: RequestBodyEmpty_def RequestBodyInMemory_def RequestBodyStreamWithReplay_def
          RequestBodyStreamOnce_def)
qed

theorem noRetriesRequestBody_iff_witness:
  "bodyMiddleware_noRetriesRequestBody
     (mw0\<lparr>requestInput := RequestBodyAny (RequestBodyStreamOnce (Func0 (Some hello_factory)))\<rparr>)
   \<and> \<not> bodyMiddleware_noRetriesRequestBody
         (mw0\<lparr>requestInput := RequestBodyAny (RequestBodyStreamOnce (Func0 (Some hello_factory))),
              requestEncoder := Some enc_ok\<rparr>)
   \<and> \<not> bodyMiddleware_noRetriesRequestBody mw0
   \<and> \<not> bodyMiddleware_noRetriesRequestBody (mw0\<lparr>requestInput := RequestBodyAny RequestBodyEmpty\<rparr>)
   \<and> \<not> bodyMiddleware_noRetriesRequestBody
         (mw0\<lparr>requestInput := RequestBodyAny (RequestBodyInMemory (Some 0))\<rparr>)
   \<and> \<not> bodyMiddleware_noRetriesRequestBody
         (mw0\<lparr>requestInput :=
                RequestBodyAny (RequestBodyStreamWithReplay (Func0 (Some hello_factory)))\<rparr>)
   \<and> fst (setRequestBody (RequestBodyStreamOnce (Func0 (Some hello_factory))) request0 world0) =
       Returns None
   \<and> GetBody (fst (snd (setRequestBody (RequestBodyStreamOnce (Func0 (Some hello_factory)))
                           request0 world0))) = None"
proof -
  let ?once = "RequestBodyStreamOnce (Func0 (Some hello_factory))"
  let ?replay = "RequestBodyStreamWithReplay (Func0 (Some hello_factory))"
  have a: "bodyMiddleware_noRetriesRequestBody (mw0\<lparr>requestInput := RequestBodyAny ?once\<rparr>)"
    using noRetriesRequestBody_iff
      [where b = "mw0\<lparr>requestInput := RequestBodyAny ?once\<rparr>"
         and i = "Func0 (Some hello_factory)",
       THEN conjunct2, THEN conjunct2, THEN conjunct2, THEN conjunct2, THEN conjunct2,
       THEN conjunct2, THEN conjunct1]
    by (simp add: mw0_def)
  have b: "\<not> bodyMiddleware_noRetriesRequestBody
             (mw0\<lparr>requestInput := RequestBodyAny ?once, requestEncoder := Some enc_ok\<rparr>)"
    using noRetriesRequestBody_iff
      [where b = "mw0\<lparr>requestInput := RequestBodyAny ?once, requestEncoder := Some enc_ok\<rparr>",
       THEN conjunct2, THEN conjunct1]
    by simp
  have c: "\<not> bodyMiddleware_noRetriesRequestBody mw0"
    using noRetriesRequestBody_iff
      [where b = mw0, THEN conjunct2, THEN conjunct2, THEN conjunct1]
    by (simp add: mw0_def)
  have d: "\<not> bodyMiddleware_noRetriesRequestBody
             (mw0\<lparr>requestInput := RequestBodyAny RequestBodyEmpty\<rparr>)"
    using noRetriesRequestBody_iff
      [where b = "mw0\<lparr>requestInput := RequestBodyAny RequestBodyEmpty\<rparr>",
       THEN conjunct2, THEN conjunct2, THEN conjunct2, THEN conjunct1]
    by simp
  have e: "\<not> bodyMiddleware_noRetriesRequestBody
             (mw0\<lparr>requestInput := RequestBodyAny (RequestBodyInMemory (Some 0))\<rparr>)"
    using noRetriesRequestBody_iff
      [where b = "mw0\<lparr>requestInput := RequestBodyAny (RequestBodyInMemory (Some 0))\<rparr>"
         and p = "Some 0",
       THEN conjunct2, THEN conjunct2, THEN conjunct2, THEN conjunct2, THEN conjunct1]
    by simp
  have f: "\<not> bodyMiddleware_noRetriesRequestBody (mw0\<lparr>requestInput := RequestBodyAny ?replay\<rparr>)"
    using noRetriesRequestBody_iff
      [where b = "mw0\<lparr>requestInput := RequestBodyAny ?replay\<rparr>"
         and i = "Func0 (Some hello_factory)",
       THEN conjunct2, THEN conjunct2, THEN conjunct2, THEN conjunct2, THEN conjunct2,
       THEN conjunct1]
    by simp
  obtain r req' w' where s: "setRequestBody ?once request0 world0 = (r, req', w')"
    by (metis prod.exhaust)
  have "fst (setRequestBody ?once request0 world0) = Returns None"
    by (simp add: RequestBodyStreamOnce_def requestBodyFunc_setRequestBody_def call_def
          hello_factory_def alloc_obj_def split: prod.splits)
  with s have r: "r = Returns None"
    by simp
  have g: "GetBody req' = None"
    using noRetriesRequestBody_iff
      [where i = "Func0 (Some hello_factory)" and req = request0 and w = world0 and r = r
         and req' = req' and w' = w',
       THEN conjunct2, THEN conjunct2, THEN conjunct2, THEN conjunct2, THEN conjunct2,
       THEN conjunct2, THEN conjunct2] s r
    by simp
  from a b c d e f s r g show ?thesis
    by simp
qed

end
